theory Spec2Isabelle
  imports Main "HOL-Library.Word" "HOL-Library.Sublist"
begin

section \<open>SporeNet model converter (scripts/convert.py)\<close>

text \<open>
  A shallow embedding of \<^verbatim>\<open>scripts/convert.py\<close>. Bytes are 8-bit words, text is a
  \<open>char list\<close>, Python exceptions are values of a sum type and the file system is a
  partial map from paths to entries.
\<close>

subsection \<open>Text rendering used by the f-strings\<close>

type_synonym byte = "8 word"

text \<open>One lower-case hexadecimal digit, as \<^verbatim>\<open>format(..., 'x')\<close> prints it.\<close>

definition hex_digit :: "nat \<Rightarrow> char" where
  "hex_digit n = ''0123456789abcdef'' ! (n mod 16)"

text \<open>\<^verbatim>\<open>f"{byte:02x}"\<close>: two hexadecimal digits, zero padded.\<close>

definition format_02x :: "byte \<Rightarrow> string" where
  "format_02x b = [hex_digit (unat b div 16), hex_digit (unat b mod 16)]"

definition dec_digit :: "nat \<Rightarrow> char" where
  "dec_digit n = ''0123456789'' ! (n mod 10)"

text \<open>\<^verbatim>\<open>str(n)\<close> for a non-negative integer, as \<^verbatim>\<open>f"{len(model_data)}"\<close> prints it.\<close>

function str_nat :: "nat \<Rightarrow> string" where
  "str_nat n = (if n < 10 then [dec_digit n] else str_nat (n div 10) @ [dec_digit (n mod 10)])"
  by pat_completeness auto
termination
  by (relation "measure id") auto

declare str_nat.simps [simp del]

subsection \<open>generate\_model\_header: the text of the C header\<close>

text \<open>
  The loop \<^verbatim>\<open>for i, byte in enumerate(model_data)\<close>: the text it appends to
  \<^verbatim>\<open>header_content\<close>, from index \<open>i\<close> on.
\<close>

fun hex_array :: "nat \<Rightarrow> byte list \<Rightarrow> string" where
  "hex_array i [] = []"
| "hex_array i (b # bs) =
     (if i mod 16 = 0 then ''\<newline>  '' else []) @ ''0x'' @ format_02x b @ '','' @
     hex_array (Suc i) bs"

definition header_head :: "nat \<Rightarrow> string" where
  "header_head n =
     ''// Auto-generated model header for SporeNet\<newline>'' @
     ''// Model size: '' @ str_nat n @ '' bytes\<newline>'' @
     ''\<newline>'' @
     ''#ifndef SPORENET_MODEL_H\<newline>'' @
     ''#define SPORENET_MODEL_H\<newline>'' @
     ''\<newline>'' @
     ''#include <stdint.h>\<newline>'' @
     ''\<newline>'' @
     ''// Model data\<newline>'' @
     ''extern const unsigned char sporenet_model_data[];\<newline>'' @
     ''extern const int sporenet_model_data_len;\<newline>'' @
     ''\<newline>'' @
     ''const unsigned char sporenet_model_data[] = {\<newline>''"

definition header_tail :: "nat \<Rightarrow> string" where
  "header_tail n =
     ''\<newline>'' @
     ''};\<newline>'' @
     ''\<newline>'' @
     ''const int sporenet_model_data_len = '' @ str_nat n @ '';\<newline>'' @
     ''\<newline>'' @
     ''#endif // SPORENET_MODEL_H\<newline>''"

text \<open>The value of \<^verbatim>\<open>header_content\<close> that generate\_model\_header writes.\<close>

definition header_content :: "byte list \<Rightarrow> string" where
  "header_content model_data =
     header_head (length model_data) @ hex_array 0 model_data @
     header_tail (length model_data)"

subsection \<open>Reading a generated header back\<close>

text \<open>
  The reader of the round-trip property: it scans a text for literals \<^verbatim>\<open>0xHL\<close> with
  two lower-case hexadecimal digits and returns the bytes they denote, in order.
\<close>

definition hex_value :: "char \<Rightarrow> nat option" where
  "hex_value c =
     (let k = (of_char c :: nat) in
      if 48 \<le> k \<and> k \<le> 57 then Some (k - 48)
      else if 97 \<le> k \<and> k \<le> 102 then Some (k - 87)
      else None)"

fun parse_hex_literals :: "string \<Rightarrow> byte list" where
  "parse_hex_literals [] = []"
| "parse_hex_literals (c # cs) =
     (if c = CHR ''0'' then
        (case cs of
           x # h # l # rest \<Rightarrow>
             (case (x = CHR ''x'', hex_value h, hex_value l) of
                (True, Some hv, Some lv) \<Rightarrow> of_nat (16 * hv + lv) # parse_hex_literals rest
              | _ \<Rightarrow> parse_hex_literals cs)
         | _ \<Rightarrow> parse_hex_literals cs)
      else parse_hex_literals cs)"

text \<open>\<^verbatim>\<open>text.split('\n')\<close>.\<close>

fun split_lines :: "string \<Rightarrow> string list" where
  "split_lines [] = [[]]"
| "split_lines (c # cs) =
     (if c = CHR ''\<newline>'' then [] # split_lines cs
      else (case split_lines cs of
              [] \<Rightarrow> [[c]]
            | l # ls \<Rightarrow> (c # l) # ls))"

text \<open>The literals of each line that holds any.\<close>

definition literal_rows :: "string \<Rightarrow> byte list list" where
  "literal_rows t = filter (\<lambda>r. r \<noteq> []) (map parse_hex_literals (split_lines t))"

text \<open>A list cut into consecutive groups of \<open>n\<close>, the last one possibly shorter.\<close>

function chunks :: "nat \<Rightarrow> 'a list \<Rightarrow> 'a list list" where
  "chunks n xs = (if n = 0 \<or> xs = [] then [] else take n xs # chunks n (drop n xs))"
  by pat_completeness auto
termination
  by (relation "measure (\<lambda>(n, xs). length xs)") auto

declare chunks.simps [simp del]

text \<open>
  The length constant a header declares: the decimal number after
  \<^verbatim>\<open>sporenet_model_data_len = \<close>.
\<close>

fun after_marker :: "string \<Rightarrow> string \<Rightarrow> string option" where
  "after_marker m [] = (if m = [] then Some [] else None)"
| "after_marker m (c # cs) =
     (if prefix m (c # cs) then Some (drop (length m) (c # cs)) else after_marker m cs)"

definition is_dec_digit :: "char \<Rightarrow> bool" where
  "is_dec_digit c \<longleftrightarrow> 48 \<le> (of_char c :: nat) \<and> (of_char c :: nat) \<le> 57"

definition read_nat :: "string \<Rightarrow> nat" where
  "read_nat ds = foldl (\<lambda>a c. 10 * a + (of_char c - 48)) 0 ds"

definition declared_len :: "string \<Rightarrow> nat option" where
  "declared_len t =
     (case after_marker ''sporenet_model_data_len = '' t of
        None \<Rightarrow> None
      | Some rest \<Rightarrow>
          (case takeWhile is_dec_digit rest of
             [] \<Rightarrow> None
           | ds \<Rightarrow> Some (read_nat ds)))"

text \<open>The literals of one line of the array, without its indentation.\<close>

definition hex_row :: "byte list \<Rightarrow> string" where
  "hex_row bs = concat (map (\<lambda>b. ''0x'' @ format_02x b @ '','') bs)"

subsection \<open>Paths and the file system\<close>

type_synonym path = string

text \<open>\<^verbatim>\<open>s.replace(old, new)\<close>: every non-overlapping occurrence, from the left.\<close>

function str_replace :: "string \<Rightarrow> string \<Rightarrow> string \<Rightarrow> string" where
  "str_replace old new s =
     (if old = [] then new @ concat (map (\<lambda>c. c # new) s)
      else if s = [] then []
      else if prefix old s then new @ str_replace old new (drop (length old) s)
      else hd s # str_replace old new (tl s))"
  by pat_completeness auto
termination
  by (relation "measure (\<lambda>(old, new, s). length s)") auto

declare str_replace.simps [simp del]

text \<open>The three paths the script derives from the output path.\<close>

definition header_path_of :: "path \<Rightarrow> path" where
  "header_path_of output = str_replace ''.tflite'' ''.h'' output"

definition onnx_path_of :: "path \<Rightarrow> path" where
  "onnx_path_of output = str_replace ''.tflite'' ''.onnx'' output"

definition tf_model_path_of :: "path \<Rightarrow> path" where
  "tf_model_path_of output = str_replace ''.tflite'' ''_tf_model'' output"

text \<open>\<^verbatim>\<open>os.path.dirname\<close> of a POSIX path, and the directories above a path.\<close>

definition is_sep :: "char \<Rightarrow> bool" where
  "is_sep c \<longleftrightarrow> c = CHR ''/''"

definition dirname :: "path \<Rightarrow> path" where
  "dirname p =
     (let head = dropWhile (\<lambda>c. \<not> is_sep c) (rev p) in
      if list_all is_sep head then rev head else rev (dropWhile is_sep head))"

function ancestors :: "path \<Rightarrow> path list" where
  "ancestors p =
     (let d = dirname p in if list_all is_sep d then [] else d # ancestors d)"
  by pat_completeness auto
termination
proof (relation "measure length")
  show "wf (measure length)" by simp
next
  fix p d
  assume d: "d = dirname p" and a: "\<not> list_all is_sep d"
  let ?h = "dropWhile (\<lambda>c. \<not> is_sep c) (rev p)"
  from a d have n: "\<not> list_all is_sep ?h"
    by (auto simp: dirname_def Let_def split: if_splits)
  have ne: "?h \<noteq> []"
  proof
    assume "?h = []"
    then have "list_all is_sep ?h" by (simp only: list.pred_inject)
    with n show False by blast
  qed
  then have "is_sep (hd ?h)" using hd_dropWhile [of "\<lambda>c. \<not> is_sep c" "rev p"] by simp
  then have "dropWhile is_sep ?h = dropWhile is_sep (tl ?h)"
    using ne by (cases ?h) auto
  then have "length (dropWhile is_sep ?h) \<le> length (tl ?h)"
    using length_dropWhile_le [of is_sep "tl ?h"] by (simp only:)
  also have "\<dots> < length ?h" using ne by simp
  also have "\<dots> \<le> length (rev p)" by (rule length_dropWhile_le)
  finally have "length (dirname p) < length p"
    using n by (simp add: dirname_def Let_def)
  then show "(d, p) \<in> measure length" using d by simp
qed

declare ancestors.simps [simp del]

text \<open>
  A path holds a regular file with its bytes or a directory tree. The contents of a
  directory tree are not looked at by the script and are not modelled. Paths are
  compared as they are written: \<^verbatim>\<open>..\<close> and links are not resolved, and
  permissions are left out.
\<close>

datatype entry = File "byte list" | Dir

type_synonym filesystem = "path \<rightharpoonup> entry"

datatype exn =
    ImportError string
  | ValueError string
  | KeyError string
  | IndexError
  | TypeError
  | FileNotFoundError path
  | IsADirectoryError path
  | NotADirectoryError path
  | LibraryError string

definition path_exists :: "filesystem \<Rightarrow> path \<Rightarrow> bool" where
  "path_exists f p \<longleftrightarrow> f p \<noteq> None"

definition path_isdir :: "filesystem \<Rightarrow> path \<Rightarrow> bool" where
  "path_isdir f p \<longleftrightarrow> f p = Some Dir"

text \<open>\<^verbatim>\<open>open(p, 'rb').read()\<close>\<close>

definition read_file :: "filesystem \<Rightarrow> path \<Rightarrow> exn + byte list" where
  "read_file f p =
     (case f p of
        None \<Rightarrow> Inl (FileNotFoundError p)
      | Some Dir \<Rightarrow> Inl (IsADirectoryError p)
      | Some (File b) \<Rightarrow> Inr b)"

text \<open>
  What stops a new file from being created at \<open>p\<close>: the path is empty or ends with a
  separator, or its parent directory is missing or is a regular file. The current
  directory and the root exist.
\<close>

definition parent_error :: "filesystem \<Rightarrow> path \<Rightarrow> exn option" where
  "parent_error f p =
     (if p = [] then Some (FileNotFoundError p)
      else if is_sep (last p) then Some (IsADirectoryError p)
      else
        (let d = dirname p in
         if list_all is_sep d \<or> d = ''.'' then None
         else (case f d of
                 None \<Rightarrow> Some (FileNotFoundError p)
               | Some (File b) \<Rightarrow> Some (NotADirectoryError p)
               | Some Dir \<Rightarrow> None)))"

text \<open>
  \<^verbatim>\<open>open(p, 'wb').write(b)\<close>: an existing file is replaced by \<open>b\<close>; a new file is
  created when its parent directory exists.
\<close>

definition write_file :: "filesystem \<Rightarrow> path \<Rightarrow> byte list \<Rightarrow> exn + filesystem" where
  "write_file f p b =
     (case f p of
        Some Dir \<Rightarrow> Inl (IsADirectoryError p)
      | Some (File old) \<Rightarrow> Inr (f(p \<mapsto> File b))
      | None \<Rightarrow>
          (case parent_error f p of
             Some e \<Rightarrow> Inl e
           | None \<Rightarrow> Inr (f(p \<mapsto> File b))))"

text \<open>\<^verbatim>\<open>os.remove(p)\<close>\<close>

definition os_remove :: "filesystem \<Rightarrow> path \<Rightarrow> exn + filesystem" where
  "os_remove f p =
     (case f p of
        None \<Rightarrow> Inl (FileNotFoundError p)
      | Some Dir \<Rightarrow> Inl (IsADirectoryError p)
      | Some (File b) \<Rightarrow> Inr (f(p := None)))"

text \<open>\<^verbatim>\<open>shutil.rmtree(p)\<close>\<close>

definition shutil_rmtree :: "filesystem \<Rightarrow> path \<Rightarrow> exn + filesystem" where
  "shutil_rmtree f p =
     (case f p of
        None \<Rightarrow> Inl (FileNotFoundError p)
      | Some (File b) \<Rightarrow> Inl (NotADirectoryError p)
      | Some Dir \<Rightarrow> Inr (f(p := None)))"

text \<open>
  \<^verbatim>\<open>os.makedirs(p, exist_ok=True)\<close>, as onnx2tf makes its output folder: the folder
  and the missing directories above it are there afterwards.
\<close>

definition makedirs :: "filesystem \<Rightarrow> path \<Rightarrow> filesystem" where
  "makedirs f p =
     (fold (\<lambda>d g. case g d of None \<Rightarrow> g(d \<mapsto> Dir) | Some e \<Rightarrow> g) (ancestors p) f)
       (p \<mapsto> Dir)"

text \<open>The bytes of an ASCII text written through \<^verbatim>\<open>open(p, 'w')\<close>.\<close>

definition encode_text :: "string \<Rightarrow> byte list" where
  "encode_text t = map (\<lambda>c. of_nat (of_char c)) t"

subsection \<open>The TensorFlow Lite converter object\<close>

text \<open>A dimension of a declared shape; \<open>None\<close> is Python's \<^verbatim>\<open>None\<close> (unknown size).\<close>

type_synonym dim = "nat option"

text \<open>
  A loaded TensorFlow model, as far as the script looks at it: \<open>input_shape\<close> is \<open>None\<close>
  when the object has no such attribute (or it is \<^verbatim>\<open>None\<close>), \<open>signatures\<close> is \<open>None\<close>
  when the object has no \<^verbatim>\<open>signatures\<close> attribute.
\<close>

record tf_model =
  model_handle :: nat
  input_shape :: "dim list option"
  signatures :: "(string \<rightharpoonup> nat) option"

datatype optimize = DEFAULT

datatype ops_set = TFLITE_BUILTINS | TFLITE_BUILTINS_INT8

datatype dtype = float32 | int8

datatype conv_source = KerasSource nat | ConcreteSource "nat list" | SavedModelSource path

text \<open>
  The attributes of a \<^verbatim>\<open>tf.lite.TFLiteConverter\<close> that the script assigns.
  \<open>representative_dataset\<close> holds the shape captured by the generator function.
\<close>

record converter =
  conv_source :: conv_source
  optimizations :: "optimize list"
  representative_dataset :: "dim list option"
  supported_ops :: "ops_set list"
  inference_input_type :: dtype
  inference_output_type :: dtype

text \<open>
  A converter as the TensorFlow constructors \<^verbatim>\<open>from_keras_model\<close>,
  \<^verbatim>\<open>from_concrete_functions\<close> and \<^verbatim>\<open>from_saved_model\<close> return it: the library's
  defaults, which are no optimizations, no representative dataset, the built-in
  operator set and float32 inference types.
\<close>

definition new_converter :: "conv_source \<Rightarrow> converter" where
  "new_converter src =
     \<lparr>conv_source = src, optimizations = [], representative_dataset = None,
      supported_ops = [TFLITE_BUILTINS], inference_input_type = float32,
      inference_output_type = float32\<rparr>"

record tensor_detail =
  detail_shape :: "nat list"
  detail_dtype :: dtype

subsection \<open>Library calls and the state of a run\<close>

text \<open>Every call into TensorFlow, PyTorch or onnx2tf that a run makes, in order.\<close>

datatype call =
    KerasLoadModel path
  | SavedModelLoad path
  | FromKerasModel nat
  | FromConcreteFunctions "nat list"
  | FromSavedModel path
  | Convert converter
  | Interpreter "byte list"
  | TorchLoad path
  | ModelEval nat
  | OnnxExport nat "nat list" path
  | Onnx2tf path path

text \<open>
  The libraries are parameters of the model. Each call may read the state \<open>'w\<close> of the
  world outside the script, change it, and raise. A call that reads a file gets the
  file system. \<open>torch_onnx_export\<close> returns the bytes it writes to its target file and
  \<open>onnx2tf_convert\<close> creates its output folder; both are taken to write nothing when
  they raise.
\<close>

record 'w libs =
  keras_load_model :: "filesystem \<Rightarrow> path \<Rightarrow> 'w \<Rightarrow> (exn + tf_model) \<times> 'w"
  saved_model_load :: "filesystem \<Rightarrow> path \<Rightarrow> 'w \<Rightarrow> (exn + tf_model) \<times> 'w"
  from_keras_model :: "tf_model \<Rightarrow> 'w \<Rightarrow> (exn + unit) \<times> 'w"
  from_concrete_functions :: "nat list \<Rightarrow> 'w \<Rightarrow> (exn + unit) \<times> 'w"
  from_saved_model :: "filesystem \<Rightarrow> path \<Rightarrow> 'w \<Rightarrow> (exn + unit) \<times> 'w"
  tflite_convert :: "converter \<Rightarrow> 'w \<Rightarrow> (exn + byte list) \<times> 'w"
  interpreter_details ::
    "byte list \<Rightarrow> 'w \<Rightarrow> (exn + tensor_detail list \<times> tensor_detail list) \<times> 'w"
  torch_load :: "filesystem \<Rightarrow> path \<Rightarrow> 'w \<Rightarrow> (exn + nat) \<times> 'w"
  model_eval :: "nat \<Rightarrow> 'w \<Rightarrow> (exn + unit) \<times> 'w"
  torch_onnx_export :: "nat \<Rightarrow> nat list \<Rightarrow> 'w \<Rightarrow> (exn + byte list) \<times> 'w"
  onnx2tf_convert :: "filesystem \<Rightarrow> path \<Rightarrow> 'w \<Rightarrow> (exn + unit) \<times> 'w"

record 'w world =
  files :: filesystem
  ext :: 'w
  calls :: "call list"

type_synonym ('w, 'a) prog = "'w world \<Rightarrow> (exn + 'a) \<times> 'w world"

definition returns :: "'a \<Rightarrow> ('w, 'a) prog" where
  "returns x w = (Inr x, w)"

definition raise :: "exn \<Rightarrow> ('w, 'a) prog" where
  "raise e w = (Inl e, w)"

text \<open>Sequencing: an exception of the first part skips the second.\<close>

definition and_then :: "('w, 'a) prog \<Rightarrow> ('a \<Rightarrow> ('w, 'b) prog) \<Rightarrow> ('w, 'b) prog" where
  "and_then m f w = (case m w of (Inl e, w') \<Rightarrow> (Inl e, w') | (Inr x, w') \<Rightarrow> f x w')"

text \<open>\<^verbatim>\<open>try: m  except Exception as e: h(e)\<close>\<close>

definition try_except :: "('w, 'a) prog \<Rightarrow> (exn \<Rightarrow> ('w, 'a) prog) \<Rightarrow> ('w, 'a) prog" where
  "try_except m h w = (case m w of (Inl e, w') \<Rightarrow> h e w' | (Inr x, w') \<Rightarrow> (Inr x, w'))"

definition call_lib :: "call \<Rightarrow> ('w \<Rightarrow> (exn + 'a) \<times> 'w) \<Rightarrow> ('w, 'a) prog" where
  "call_lib c f w =
     (case f (ext w) of (r, x) \<Rightarrow> (r, w\<lparr>ext := x, calls := calls w @ [c]\<rparr>))"

definition fs_op :: "(filesystem \<Rightarrow> exn + filesystem) \<Rightarrow> ('w, unit) prog" where
  "fs_op g w =
     (case g (files w) of Inl e \<Rightarrow> (Inl e, w) | Inr f \<Rightarrow> (Inr (), w\<lparr>files := f\<rparr>))"

text \<open>A library call that leaves \<open>e\<close> at path \<open>p\<close>.\<close>

definition put_entry :: "path \<Rightarrow> entry \<Rightarrow> ('w, unit) prog" where
  "put_entry p e w = (Inr (), w\<lparr>files := (files w)(p \<mapsto> e)\<rparr>)"

text \<open>A library call that leaves a folder at path \<open>p\<close>.\<close>

definition create_folder :: "path \<Rightarrow> ('w, unit) prog" where
  "create_folder p w = (Inr (), w\<lparr>files := makedirs (files w) p\<rparr>)"

text \<open>The converter calls of a run, in order.\<close>

fun convert_calls :: "call list \<Rightarrow> converter list" where
  "convert_calls [] = []"
| "convert_calls (Convert c # cs) = c # convert_calls cs"
| "convert_calls (_ # cs) = convert_calls cs"

subsection \<open>convert\_tensorflow\_model\<close>

text \<open>
  Lines 43 to 59: the model is loaded by file extension and the converter is built.
  The second test of \<^verbatim>\<open>.h5\<close> (line 58) is folded into the first branch.
\<close>

definition load_tensorflow_model :: "'w libs \<Rightarrow> path \<Rightarrow> ('w, tf_model \<times> converter) prog" where
  "load_tensorflow_model L model_path w =
     (if suffix ''.h5'' model_path then
        and_then (call_lib (KerasLoadModel model_path)
                    (keras_load_model L (files w) model_path)) (\<lambda>model.
        and_then (call_lib (FromKerasModel (model_handle model))
                    (from_keras_model L model)) (\<lambda>_.
        returns (model, new_converter (KerasSource (model_handle model))))) w
      else if suffix ''.pb'' model_path \<or> path_isdir (files w) model_path then
        and_then (call_lib (SavedModelLoad model_path)
                    (saved_model_load L (files w) model_path)) (\<lambda>model.
        and_then (case signatures model of
                    Some sigs \<Rightarrow>
                      (case sigs ''serving_default'' of
                         None \<Rightarrow> raise (KeyError ''serving_default'')
                       | Some f \<Rightarrow> returns f)
                  | None \<Rightarrow> returns (model_handle model)) (\<lambda>concrete_func.
        and_then (call_lib (FromConcreteFunctions [concrete_func])
                    (from_concrete_functions L [concrete_func])) (\<lambda>_.
        returns (model, new_converter (ConcreteSource [concrete_func]))))) w
      else raise (ValueError (''Unsupported TensorFlow model format: '' @ model_path)) w)"

text \<open>
  Lines 61 to 84: the optimization settings. \<^verbatim>\<open>model.input_shape[1:]\<close> drops the
  first entry of a non-empty shape; an empty or absent shape is falsy and leaves the
  default optimization only.
\<close>

definition configure_optimization :: "bool \<Rightarrow> tf_model \<Rightarrow> converter \<Rightarrow> converter" where
  "configure_optimization quantize model converter =
     (if quantize then
        (let converter = converter\<lparr>optimizations := [DEFAULT]\<rparr> in
         case input_shape model of
           Some (batch # shape) \<Rightarrow>
             converter\<lparr>representative_dataset := Some shape,
                       supported_ops := [TFLITE_BUILTINS_INT8],
                       inference_input_type := int8,
                       inference_output_type := int8\<rparr>
         | _ \<Rightarrow> converter)
      else converter)"

text \<open>Lines 86 to 96: the conversion and its fallback.\<close>

definition convert_with_fallback :: "'w libs \<Rightarrow> converter \<Rightarrow> ('w, byte list) prog" where
  "convert_with_fallback L converter =
     try_except (call_lib (Convert converter) (tflite_convert L converter))
       (\<lambda>e. let converter = converter\<lparr>optimizations := []\<rparr>
            in call_lib (Convert converter) (tflite_convert L converter))"

text \<open>
  Lines 98 to 114: the model is saved, then loaded into an interpreter whose first input
  and output details are printed.
\<close>

definition save_and_report :: "'w libs \<Rightarrow> path \<Rightarrow> byte list \<Rightarrow> ('w, unit) prog" where
  "save_and_report L output_path tflite_model =
     and_then (fs_op (\<lambda>f. write_file f output_path tflite_model)) (\<lambda>_.
     and_then (call_lib (Interpreter tflite_model)
                 (interpreter_details L tflite_model)) (\<lambda>(input_details, output_details).
     (case input_details of
        [] \<Rightarrow> raise IndexError
      | i # _ \<Rightarrow>
          (case output_details of
             [] \<Rightarrow> raise IndexError
           | out # _ \<Rightarrow> returns ()))))"

definition convert_tensorflow_model :: "'w libs \<Rightarrow> path \<Rightarrow> path \<Rightarrow> bool \<Rightarrow> ('w, unit) prog" where
  "convert_tensorflow_model L model_path output_path quantize =
     and_then (load_tensorflow_model L model_path) (\<lambda>(model, converter).
     and_then (convert_with_fallback L (configure_optimization quantize model converter))
       (\<lambda>tflite_model.
     save_and_report L output_path tflite_model))"

subsection \<open>convert\_onnx\_model and convert\_pytorch\_model\<close>

text \<open>The module globals \<^verbatim>\<open>torch\<close> and \<^verbatim>\<open>onnx\<close>: set, or \<^verbatim>\<open>None\<close>.\<close>

record globals =
  torch_available :: bool
  onnx_available :: bool

text \<open>
  The body of the \<^verbatim>\<open>try\<close> of convert\_onnx\_model (lines 160 to 183).
\<close>

definition onnx_try_body :: "'w libs \<Rightarrow> path \<Rightarrow> path \<Rightarrow> bool \<Rightarrow> ('w, unit) prog" where
  "onnx_try_body L model_path output_path quantize w =
     (let tf_model_path = tf_model_path_of output_path in
      and_then (call_lib (Onnx2tf model_path tf_model_path)
                  (onnx2tf_convert L (files w) model_path)) (\<lambda>_.
      and_then (create_folder tf_model_path) (\<lambda>_.
      and_then (\<lambda>w'. call_lib (FromSavedModel tf_model_path)
                  (from_saved_model L (files w') tf_model_path) w') (\<lambda>_.
      (let converter = new_converter (SavedModelSource tf_model_path);
           converter = (if quantize then converter\<lparr>optimizations := [DEFAULT]\<rparr>
                        else converter) in
       and_then (call_lib (Convert converter) (tflite_convert L converter)) (\<lambda>tflite_model.
       and_then (fs_op (\<lambda>f. write_file f output_path tflite_model)) (\<lambda>_.
       fs_op (\<lambda>f. shutil_rmtree f tf_model_path))))))) w)"

text \<open>The handler prints and re-raises.\<close>

definition convert_onnx_model ::
  "'w libs \<Rightarrow> globals \<Rightarrow> path \<Rightarrow> path \<Rightarrow> bool \<Rightarrow> ('w, unit) prog" where
  "convert_onnx_model L G model_path output_path quantize =
     (if \<not> onnx_available G then raise (ImportError ''ONNX not available'')
      else try_except (onnx_try_body L model_path output_path quantize) (\<lambda>e. raise e))"

text \<open>The shape of \<^verbatim>\<open>torch.randn(1, 3, 224, 224)\<close>.\<close>

definition dummy_input_shape :: "nat list" where
  "dummy_input_shape = [1, 3, 224, 224]"

definition convert_pytorch_model ::
  "'w libs \<Rightarrow> globals \<Rightarrow> path \<Rightarrow> path \<Rightarrow> bool \<Rightarrow> ('w, unit) prog" where
  "convert_pytorch_model L G model_path output_path quantize w =
     (if \<not> torch_available G then raise (ImportError ''PyTorch not available'') w
      else
        and_then (call_lib (TorchLoad model_path) (torch_load L (files w) model_path))
          (\<lambda>model.
        and_then (call_lib (ModelEval model) (model_eval L model)) (\<lambda>_.
        (let onnx_path = onnx_path_of output_path in
         and_then (call_lib (OnnxExport model dummy_input_shape onnx_path)
                     (torch_onnx_export L model dummy_input_shape)) (\<lambda>onnx_bytes.
         and_then (put_entry onnx_path (File onnx_bytes)) (\<lambda>_.
         and_then (convert_onnx_model L G onnx_path output_path quantize) (\<lambda>_.
         fs_op (\<lambda>f. os_remove f onnx_path))))))) w)"

subsection \<open>generate\_model\_header and main\<close>

definition generate_model_header :: "path \<Rightarrow> path \<Rightarrow> ('w, unit) prog" where
  "generate_model_header tflite_path header_path w =
     (case read_file (files w) tflite_path of
        Inl e \<Rightarrow> (Inl e, w)
      | Inr model_data \<Rightarrow>
          fs_op (\<lambda>f. write_file f header_path (encode_text (header_content model_data))) w)"

text \<open>Which of the imported packages are installed.\<close>

record installed =
  has_tensorflow :: bool
  has_torch :: bool
  has_torchvision :: bool
  has_onnx :: bool
  has_onnx2tf :: bool

text \<open>setup\_imports: \<open>None\<close> is \<^verbatim>\<open>sys.exit(1)\<close> for a missing TensorFlow.\<close>

definition setup_imports :: "installed \<Rightarrow> globals option" where
  "setup_imports i =
     (if \<not> has_tensorflow i then None
      else Some \<lparr>torch_available = (has_torch i \<and> has_torchvision i),
                 onnx_available = (has_onnx i \<and> has_onnx2tf i)\<rparr>)"

datatype framework = tensorflow | pytorch | onnx

record args =
  arg_model :: path
  arg_framework :: framework
  arg_output :: path
  arg_quantize :: bool
  arg_generate_header :: bool

text \<open>The three places where the script ends with \<^verbatim>\<open>sys.exit(1)\<close>, and what it printed.\<close>

datatype failure = TensorFlowNotFound | ModelFileNotFound path | ConversionFailed exn

datatype exit_status = Exit0 | Exit1 failure

definition exit_code :: "exit_status \<Rightarrow> nat" where
  "exit_code s = (case s of Exit0 \<Rightarrow> 0 | Exit1 _ \<Rightarrow> 1)"

definition run_conversion :: "'w libs \<Rightarrow> globals \<Rightarrow> args \<Rightarrow> ('w, unit) prog" where
  "run_conversion L G a =
     and_then
       (case arg_framework a of
          tensorflow \<Rightarrow> convert_tensorflow_model L (arg_model a) (arg_output a) (arg_quantize a)
        | pytorch \<Rightarrow> convert_pytorch_model L G (arg_model a) (arg_output a) (arg_quantize a)
        | onnx \<Rightarrow> convert_onnx_model L G (arg_model a) (arg_output a) (arg_quantize a))
       (\<lambda>_. if arg_generate_header a
             then generate_model_header (arg_output a) (header_path_of (arg_output a))
             else returns ())"

definition main :: "'w libs \<Rightarrow> installed \<Rightarrow> args \<Rightarrow> 'w world \<Rightarrow> exit_status \<times> 'w world" where
  "main L inst a w =
     (case setup_imports inst of
        None \<Rightarrow> (Exit1 TensorFlowNotFound, w)
      | Some G \<Rightarrow>
          if \<not> path_exists (files w) (arg_model a)
          then (Exit1 (ModelFileNotFound (arg_model a)), w)
          else (case run_conversion L G a w of
                  (Inl e, w') \<Rightarrow> (Exit1 (ConversionFailed e), w')
                | (Inr _, w') \<Rightarrow> (Exit0, w')))"

subsection \<open>The representative dataset\<close>

text \<open>
  \<^verbatim>\<open>representative_dataset\<close> (lines 72 to 76) is a generator function. The generator
  object is its loop counter together with the captured shape; calling the function makes
  a new generator. \<^verbatim>\<open>np.random.random\<close> is a parameter: \<open>rnd\<close> takes one value
  from the library's source of uniform random numbers, whose state is \<open>'r\<close>;
  \<open>f32\<close> is the cast of one value by \<^verbatim>\<open>astype(np.float32)\<close>.
\<close>

record 'v tensor =
  tensor_shape :: "nat list"
  tensor_data :: "'v list"

fun draws :: "('r \<Rightarrow> 'v \<times> 'r) \<Rightarrow> nat \<Rightarrow> 'r \<Rightarrow> 'v list \<times> 'r" where
  "draws rnd 0 r = ([], r)"
| "draws rnd (Suc n) r =
     (case rnd r of (v, r1) \<Rightarrow> (case draws rnd n r1 of (vs, r2) \<Rightarrow> (v # vs, r2)))"

definition np_random_random ::
  "('r \<Rightarrow> 'v \<times> 'r) \<Rightarrow> nat list \<Rightarrow> 'r \<Rightarrow> 'v tensor \<times> 'r" where
  "np_random_random rnd shape r =
     (case draws rnd (prod_list shape) r of
        (vs, r') \<Rightarrow> (\<lparr>tensor_shape = shape, tensor_data = vs\<rparr>, r'))"

text \<open>A shape all of whose sizes are known; a size \<^verbatim>\<open>None\<close> is a TypeError in numpy.\<close>

definition concrete_shape :: "dim list \<Rightarrow> nat list option" where
  "concrete_shape ds = (if None \<in> set ds then None else Some (map the ds))"

definition sample_count :: nat where
  "sample_count = 100"

record generator =
  gen_shape :: "dim list"
  gen_count :: nat

definition representative_dataset_fn :: "dim list \<Rightarrow> generator" where
  "representative_dataset_fn shape = \<lparr>gen_shape = shape, gen_count = 0\<rparr>"

datatype 'a step = Yield 'a | StopIteration | Raised exn

text \<open>\<^verbatim>\<open>next(g)\<close>: one pass through the loop body.\<close>

definition gen_next ::
  "('r \<Rightarrow> 'v \<times> 'r) \<Rightarrow> ('v \<Rightarrow> 'v) \<Rightarrow> generator \<Rightarrow> 'r \<Rightarrow>
     'v tensor list step \<times> generator \<times> 'r" where
  "gen_next rnd f32 g r =
     (if gen_count g < sample_count then
        (case concrete_shape (gen_shape g) of
           None \<Rightarrow> (Raised TypeError, g\<lparr>gen_count := sample_count\<rparr>, r)
         | Some shape \<Rightarrow>
             (case np_random_random rnd (1 # shape) r of
                (data, r') \<Rightarrow>
                  (Yield [data\<lparr>tensor_data := map f32 (tensor_data data)\<rparr>],
                   g\<lparr>gen_count := Suc (gen_count g)\<rparr>, r')))
      else (StopIteration, g, r))"

text \<open>
  A consumer that iterates the generator to its end: the samples it got, the exception
  that ended the iteration if one did, and the state of the random source.
\<close>

function consume ::
  "('r \<Rightarrow> 'v \<times> 'r) \<Rightarrow> ('v \<Rightarrow> 'v) \<Rightarrow> generator \<Rightarrow> 'r \<Rightarrow>
     'v tensor list list \<times> exn option \<times> 'r" where
  "consume rnd f32 g r =
     (case gen_next rnd f32 g r of
        (Yield x, g', r') \<Rightarrow>
          (case consume rnd f32 g' r' of (xs, res) \<Rightarrow> (x # xs, res))
      | (StopIteration, g', r') \<Rightarrow> ([], None, r')
      | (Raised e, g', r') \<Rightarrow> ([], Some e, r'))"
  by pat_completeness auto
termination
  by (relation "measure (\<lambda>(rnd, f32, g, r). sample_count - gen_count g)")
     (auto simp: gen_next_def split: if_splits option.splits prod.splits)

declare consume.simps [simp del]

subsection \<open>The quantization plan of the specification\<close>

datatype mode = NONE | DEFAULT_OPTIMIZE | INTEGER_8BIT

record quantization_plan =
  enabled :: bool
  mode :: mode
  representative_input_shape :: "dim list option"
  plan_sample_count :: nat

text \<open>
  The plan that the settings of a converter stand for. Settings that are none of the
  three combinations the configuration code produces stand for no plan.
\<close>

definition plan_of :: "converter \<Rightarrow> quantization_plan option" where
  "plan_of c =
     (if optimizations c = [] \<and> representative_dataset c = None \<and>
         supported_ops c = [TFLITE_BUILTINS] \<and>
         inference_input_type c = float32 \<and> inference_output_type c = float32
      then Some \<lparr>enabled = False, mode = NONE, representative_input_shape = None,
                 plan_sample_count = 0\<rparr>
      else if optimizations c = [DEFAULT] \<and> representative_dataset c = None \<and>
         supported_ops c = [TFLITE_BUILTINS] \<and>
         inference_input_type c = float32 \<and> inference_output_type c = float32
      then Some \<lparr>enabled = True, mode = DEFAULT_OPTIMIZE, representative_input_shape = None,
                 plan_sample_count = 0\<rparr>
      else if optimizations c = [DEFAULT] \<and> representative_dataset c \<noteq> None \<and>
         supported_ops c = [TFLITE_BUILTINS_INT8] \<and>
         inference_input_type c = int8 \<and> inference_output_type c = int8
      then Some \<lparr>enabled = True, mode = INTEGER_8BIT,
                 representative_input_shape = representative_dataset c,
                 plan_sample_count = sample_count\<rparr>
      else None)"

subsection \<open>Concrete libraries for examples\<close>

text \<open>Libraries all of whose calls succeed; the outside world has no state.\<close>

definition mnist_model :: tf_model where
  "mnist_model =
     \<lparr>model_handle = 1, input_shape = Some [None, Some 28, Some 28, Some 1],
      signatures = None\<rparr>"

definition float_detail :: tensor_detail where
  "float_detail = \<lparr>detail_shape = [1, 28, 28, 1], detail_dtype = float32\<rparr>"

text \<open>An object loaded from a SavedModel: it has signatures and no \<^verbatim>\<open>input_shape\<close>.\<close>

definition saved_model :: tf_model where
  "saved_model =
     \<lparr>model_handle = 2, input_shape = None,
      signatures = Some [''serving_default'' \<mapsto> 3]\<rparr>"

definition ok_libs :: "unit libs" where
  "ok_libs =
     \<lparr>keras_load_model = (\<lambda>f p x. (Inr mnist_model, x)),
      saved_model_load = (\<lambda>f p x. (Inr saved_model, x)),
      from_keras_model = (\<lambda>m x. (Inr (), x)),
      from_concrete_functions = (\<lambda>fs x. (Inr (), x)),
      from_saved_model = (\<lambda>f p x. (Inr (), x)),
      tflite_convert = (\<lambda>c x. (Inr [0x1c, 0, 0, 0], x)),
      interpreter_details = (\<lambda>b x. (Inr ([float_detail], [float_detail]), x)),
      torch_load = (\<lambda>f p x. (Inr 7, x)),
      model_eval = (\<lambda>m x. (Inr (), x)),
      torch_onnx_export = (\<lambda>m s x. (Inr [8, 1], x)),
      onnx2tf_convert = (\<lambda>f p x. (Inr (), x))\<rparr>"

text \<open>The same libraries with a converter that always raises.\<close>

definition failing_libs :: "unit libs" where
  "failing_libs = ok_libs\<lparr>tflite_convert := (\<lambda>c x. (Inl (LibraryError ''convert''), x))\<rparr>"

text \<open>The same libraries with an interpreter that rejects the model.\<close>

definition rejecting_libs :: "unit libs" where
  "rejecting_libs =
     ok_libs\<lparr>interpreter_details := (\<lambda>b x. (Inl (LibraryError ''interpreter''), x))\<rparr>"

text \<open>
  The same libraries for a model whose own input and output tensors are 8-bit integers:
  the interpreter reports that type for the converted model.
\<close>

definition int8_detail :: tensor_detail where
  "int8_detail = \<lparr>detail_shape = [1, 28, 28, 1], detail_dtype = int8\<rparr>"

definition int8_libs :: "unit libs" where
  "int8_libs =
     ok_libs\<lparr>interpreter_details := (\<lambda>b x. (Inr ([int8_detail], [int8_detail]), x))\<rparr>"

text \<open>A world with the input model \<^verbatim>\<open>m.h5\<close> (or \<^verbatim>\<open>m.onnx\<close>, \<^verbatim>\<open>m.pt\<close>) and nothing else.\<close>

definition start_world :: "path \<Rightarrow> unit world" where
  "start_world p = \<lparr>files = [p \<mapsto> File [1, 2, 3]], ext = (), calls = []\<rparr>"

definition all_installed :: installed where
  "all_installed =
     \<lparr>has_tensorflow = True, has_torch = True, has_torchvision = True,
      has_onnx = True, has_onnx2tf = True\<rparr>"

definition all_available :: globals where
  "all_available = \<lparr>torch_available = True, onnx_available = True\<rparr>"

subsection \<open>The converter calls of one run\<close>

text \<open>The converters passed to \<^verbatim>\<open>convert()\<close> between the states \<open>w\<close> and \<open>w'\<close> of a run.\<close>

definition converters_called :: "'w world \<Rightarrow> 'w world \<Rightarrow> converter list" where
  "converters_called w w' = drop (length (convert_calls (calls w))) (convert_calls (calls w'))"

text \<open>The run from \<open>w\<close> to \<open>w'\<close> kept the earlier calls, and each of its own satisfies \<open>P\<close>.\<close>

definition new_calls_satisfy :: "(converter \<Rightarrow> bool) \<Rightarrow> 'w world \<Rightarrow> 'w world \<Rightarrow> bool" where
  "new_calls_satisfy P w w' \<longleftrightarrow>
     prefix (convert_calls (calls w)) (convert_calls (calls w')) \<and>
     list_all P (converters_called w w')"

text \<open>The plan \<^verbatim>\<open>{enabled:false, mode:NONE}\<close>.\<close>

definition none_plan :: quantization_plan where
  "none_plan =
     \<lparr>enabled = False, mode = NONE, representative_input_shape = None,
      plan_sample_count = 0\<rparr>"

text \<open>The settings that make a converter produce 8-bit integer tensors.\<close>

definition requests_int8 :: "converter \<Rightarrow> bool" where
  "requests_int8 c \<longleftrightarrow>
     TFLITE_BUILTINS_INT8 \<in> set (supported_ops c) \<or>
     inference_input_type c = int8 \<or> inference_output_type c = int8"

text \<open>The plan \<^verbatim>\<open>{enabled:true, mode:DEFAULT_OPTIMIZE}\<close>.\<close>

definition default_plan :: quantization_plan where
  "default_plan =
     \<lparr>enabled = True, mode = DEFAULT_OPTIMIZE, representative_input_shape = None,
      plan_sample_count = 0\<rparr>"

text \<open>
  A sample of the representative dataset for a shape: a list of one tensor, of that shape
  behind a batch size of 1, holding as many values as the shape has entries.
\<close>

definition sample_ok :: "nat list \<Rightarrow> 'v tensor list \<Rightarrow> bool" where
  "sample_ok shape s \<longleftrightarrow>
     length s = 1 \<and> tensor_shape (hd s) = 1 # shape \<and>
     length (tensor_data (hd s)) = prod_list shape"

section \<open>The generated header\<close>

subsection \<open>Reading the literals back\<close>

lemma hex_value_hex_digit: "n < 16 \<Longrightarrow> hex_value (hex_digit n) = Some n"
proof -
  assume "n < 16"
  then have "n \<in> {0,1,2,3,4,5,6,7,8,9,10,11,12,13,14,15}" by (simp; arith)
  then show ?thesis
    by (auto simp: hex_value_def hex_digit_def)
qed

lemma byte_nibbles: "of_nat (16 * (unat b div 16) + unat b mod 16) = (b :: byte)"
  by simp

lemma parse_skip: "c \<noteq> CHR ''0'' \<Longrightarrow> parse_hex_literals (c # s) = parse_hex_literals s"
  by simp

lemma parse_literal:
  "parse_hex_literals (''0x'' @ format_02x b @ '','' @ s) = b # parse_hex_literals s"
proof -
  have h: "hex_value (hex_digit (unat b div 16)) = Some (unat b div 16)"
  proof (rule hex_value_hex_digit)
    have "unat b < 256" using unsigned_less [of b] by simp
    then show "unat b div 16 < 16" by arith
  qed
  have l: "hex_value (hex_digit (unat b mod 16)) = Some (unat b mod 16)"
    by (rule hex_value_hex_digit) simp
  show ?thesis
    by (simp add: format_02x_def h l)
qed

lemma parse_hex_array: "parse_hex_literals (hex_array i bs @ s) = bs @ parse_hex_literals s"
proof (induction bs arbitrary: i)
  case Nil
  then show ?case by simp
next
  case (Cons b bs)
  have "parse_hex_literals (''0x'' @ format_02x b @ '','' @ hex_array (Suc i) bs @ s)
        = b # bs @ parse_hex_literals s"
    using parse_literal [of b "hex_array (Suc i) bs @ s"] Cons.IH by simp
  then show ?case by simp
qed

lemma is_dec_digit_dec_digit: "is_dec_digit (dec_digit n)"
proof -
  have "n mod 10 \<in> {0,1,2,3,4,5,6,7,8,9}" by (simp; arith)
  then show ?thesis
    by (auto simp: is_dec_digit_def dec_digit_def)
qed

lemma str_nat_digits: "\<forall>c \<in> set (str_nat n). is_dec_digit c"
proof (induction n rule: str_nat.induct)
  case (1 n)
  then show ?case
    by (subst str_nat.simps) (auto simp: is_dec_digit_dec_digit)
qed

lemma str_nat_nonempty: "str_nat n \<noteq> []"
  by (subst str_nat.simps) simp

lemma parse_no_zero:
  "CHR ''0'' \<notin> set xs \<Longrightarrow> parse_hex_literals (xs @ s) = parse_hex_literals s"
  by (induction xs) (auto simp del: parse_hex_literals.simps simp add: parse_skip)

lemma parse_zero_other:
  "c' \<noteq> CHR ''x'' \<Longrightarrow> parse_hex_literals (CHR ''0'' # c' # s) = parse_hex_literals (c' # s)"
  apply (subst parse_hex_literals.simps(2))
  apply (simp del: parse_hex_literals.simps split: list.splits)
  done

lemma not_digit_x: "is_dec_digit c \<Longrightarrow> c \<noteq> CHR ''x''"
  by (auto simp: is_dec_digit_def)

lemma parse_digits:
  "\<forall>c \<in> set ds. is_dec_digit c \<Longrightarrow> c' \<noteq> CHR ''x'' \<Longrightarrow>
   parse_hex_literals (ds @ c' # s) = parse_hex_literals (c' # s)"
proof (induction ds)
  case Nil
  then show ?case by simp
next
  case (Cons d ds)
  then have IH: "parse_hex_literals (ds @ c' # s) = parse_hex_literals (c' # s)" by simp
  show ?case
  proof (cases "d = CHR ''0''")
    case False
    then show ?thesis using IH by (simp del: parse_hex_literals.simps add: parse_skip)
  next
    case True
    show ?thesis
    proof (cases ds)
      case Nil
      then show ?thesis using True Cons.prems parse_zero_other [of c' s] by (simp del: parse_hex_literals.simps)
    next
      case (Cons e es)
      with Cons.prems have "e \<noteq> CHR ''x''" using not_digit_x by auto
      then show ?thesis
        using True IH Cons parse_zero_other [of e "es @ c' # s"] by (simp del: parse_hex_literals.simps)
    qed
  qed
qed

lemma parse_str_nat:
  "c' \<noteq> CHR ''x'' \<Longrightarrow>
   parse_hex_literals (str_nat n @ c' # s) = parse_hex_literals (c' # s)"
  using parse_digits [OF str_nat_digits] by simp

lemma parse_header_head: "parse_hex_literals (header_head n @ s) = parse_hex_literals s"
  unfolding header_head_def
  by (simp del: parse_hex_literals.simps add: parse_skip parse_str_nat)

lemma parse_header_tail: "parse_hex_literals (header_tail n) = []"
  unfolding header_tail_def
  by (simp del: parse_hex_literals.simps add: parse_skip parse_str_nat parse_hex_literals.simps(1))

lemma parse_header_content: "parse_hex_literals (header_content d) = d"
  by (simp del: parse_hex_literals.simps
        add: header_content_def parse_header_head parse_hex_array parse_header_tail)

lemma after_marker_skip:
  "m \<noteq> [] \<Longrightarrow> hd m \<notin> set xs \<Longrightarrow> after_marker m (xs @ s) = after_marker m s"
  by (induction xs) (auto simp: prefix_def neq_Nil_conv)

lemma dec_digit_value: "of_char (dec_digit k) - 48 = k mod 10"
proof -
  have "k mod 10 \<in> {0,1,2,3,4,5,6,7,8,9}" by (simp; arith)
  then show ?thesis
    by (auto simp: dec_digit_def)
qed

lemma read_nat_snoc: "read_nat (ds @ [c]) = 10 * read_nat ds + (of_char c - 48)"
  by (simp add: read_nat_def)

lemma read_nat_str_nat: "read_nat (str_nat n) = n"
proof (induction n rule: str_nat.induct)
  case (1 n)
  show ?case
  proof (cases "n < 10")
    case True
    then show ?thesis
      by (subst str_nat.simps) (simp add: read_nat_def dec_digit_value)
  next
    case False
    with 1 have "read_nat (str_nat (n div 10)) = n div 10" by simp
    with False show ?thesis
      by (subst str_nat.simps) (simp add: read_nat_snoc dec_digit_value)
  qed
qed

lemma s_not_digit: "\<forall>c \<in> set ds. is_dec_digit c \<Longrightarrow> CHR ''s'' \<notin> set ds"
  by (auto simp: is_dec_digit_def)

lemma after_marker_str_nat:
  "after_marker (CHR ''s'' # m) (str_nat n @ s) = after_marker (CHR ''s'' # m) s"
  by (rule after_marker_skip) (use s_not_digit [OF str_nat_digits] in simp_all)

lemma hex_digit_not_s: "hex_digit k \<noteq> CHR ''s''"
proof -
  have "k mod 16 \<in> {0,1,2,3,4,5,6,7,8,9,10,11,12,13,14,15}" by (simp; arith)
  then show ?thesis
    by (auto simp: hex_digit_def)
qed

lemma hex_array_no_s: "CHR ''s'' \<notin> set (hex_array i bs)"
  by (induction bs arbitrary: i)
     (auto simp: format_02x_def hex_digit_not_s hex_digit_not_s [symmetric])

lemma after_marker_hex_array:
  "after_marker (CHR ''s'' # m) (hex_array i bs @ s) = after_marker (CHR ''s'' # m) s"
  by (rule after_marker_skip) (simp_all add: hex_array_no_s)

lemma takeWhile_str_nat:
  "\<not> is_dec_digit c \<Longrightarrow> takeWhile is_dec_digit (str_nat n @ c # s) = str_nat n"
  using str_nat_digits [of n] by (simp add: takeWhile_append2)

lemma declared_len_header: "declared_len (header_content d) = Some (length d)"
proof -
  have m: "after_marker ''sporenet_model_data_len = '' (header_content d)
           = Some (str_nat (length d) @ '';\<newline>\<newline>#endif // SPORENET_MODEL_H\<newline>'')"
    unfolding header_content_def header_head_def header_tail_def
    by (simp add: after_marker_str_nat after_marker_hex_array)
  have sc: "\<not> is_dec_digit (CHR '';'')" by (simp add: is_dec_digit_def)
  have "(case str_nat (length d) of [] \<Rightarrow> None | ds \<Rightarrow> Some (read_nat ds))
        = Some (read_nat (str_nat (length d)))"
    using str_nat_nonempty [of "length d"] by (cases "str_nat (length d)") simp_all
  then show ?thesis
    unfolding declared_len_def m
    by (simp add: takeWhile_str_nat [OF sc] read_nat_str_nat)
qed

lemma split_lines_nonempty: "split_lines s \<noteq> []"
  by (induction s) (auto split: list.splits)

lemma split_lines_first:
  "CHR ''\<newline>'' \<notin> set xs \<Longrightarrow>
   split_lines (xs @ t) = (xs @ hd (split_lines t)) # tl (split_lines t)"
proof (induction xs)
  case Nil
  then show ?case using split_lines_nonempty [of t] by simp
next
  case (Cons c xs)
  then show ?case by (auto split: list.splits)
qed

lemma literal_rows_newline: "literal_rows (CHR ''\<newline>'' # t) = literal_rows t"
  by (simp add: literal_rows_def)

lemma literal_rows_line:
  "CHR ''\<newline>'' \<notin> set l \<Longrightarrow>
   literal_rows (l @ CHR ''\<newline>'' # t) =
     (if parse_hex_literals l = [] then [] else [parse_hex_literals l]) @ literal_rows t"
  by (simp add: literal_rows_def split_lines_first del: parse_hex_literals.simps)

lemma literal_rows_skip:
  "c \<noteq> CHR ''\<newline>'' \<Longrightarrow> c \<noteq> CHR ''0'' \<Longrightarrow> literal_rows (c # t) = literal_rows t"
  using split_lines_nonempty [of t]
  by (cases "split_lines t") (simp_all add: literal_rows_def)

lemma literal_rows_Nil: "literal_rows [] = []"
  by (simp add: literal_rows_def)

lemma newline_not_digit: "\<forall>c \<in> set ds. is_dec_digit c \<Longrightarrow> CHR ''\<newline>'' \<notin> set ds"
  by (auto simp: is_dec_digit_def)

lemma literal_rows_str_nat:
  assumes "c' \<noteq> CHR ''x''" "c' \<noteq> CHR ''\<newline>''"
  shows "literal_rows (str_nat n @ c' # t) = literal_rows (c' # t)"
proof -
  obtain l ls where sl: "split_lines t = l # ls"
    using split_lines_nonempty [of t] by (cases "split_lines t") auto
  have nl: "CHR ''\<newline>'' \<notin> set (str_nat n)"
    by (rule newline_not_digit [OF str_nat_digits])
  have 1: "split_lines (c' # t) = (c' # l) # ls"
    using assms sl by simp
  have 2: "split_lines (str_nat n @ c' # t) = (str_nat n @ c' # l) # ls"
    using split_lines_first [OF nl, of "c' # t"] 1 by simp
  show ?thesis
    unfolding literal_rows_def 1 2
    by (simp del: parse_hex_literals.simps add: parse_str_nat [OF assms(1)])
qed

lemma hex_row_Cons: "hex_row (b # bs) = ''0x'' @ format_02x b @ '','' @ hex_row bs"
  by (simp add: hex_row_def)

lemma hex_row_Nil: "hex_row [] = []"
  by (simp add: hex_row_def)

lemma parse_hex_row: "parse_hex_literals (hex_row bs @ s) = bs @ parse_hex_literals s"
proof (induction bs)
  case Nil
  then show ?case by (simp add: hex_row_Nil)
next
  case (Cons b bs)
  then show ?case
    using parse_literal [of b "hex_row bs @ s"]
    by (simp add: hex_row_Cons del: parse_hex_literals.simps)
qed

lemma hex_digit_not_newline: "hex_digit k \<noteq> CHR ''\<newline>''"
proof -
  have "k mod 16 \<in> {0,1,2,3,4,5,6,7,8,9,10,11,12,13,14,15}" by (simp; arith)
  then show ?thesis
    by (auto simp: hex_digit_def)
qed

lemma hex_row_no_newline: "CHR ''\<newline>'' \<notin> set (hex_row bs)"
  by (induction bs)
     (auto simp: hex_row_Nil hex_row_Cons format_02x_def
        hex_digit_not_newline hex_digit_not_newline [symmetric])

text \<open>Inside a line the loop appends literals only, up to the next multiple of 16.\<close>

lemma hex_array_inside:
  "0 < i mod 16 \<Longrightarrow>
   hex_array i bs =
     hex_row (take (16 - i mod 16) bs) @
     hex_array (i + (16 - i mod 16)) (drop (16 - i mod 16) bs)"
proof (induction bs arbitrary: i)
  case Nil
  then show ?case by (simp add: hex_row_Nil)
next
  case (Cons b bs)
  let ?k = "i mod 16"
  have k: "0 < ?k" "?k < 16" using Cons.prems by simp_all
  show ?case
  proof (cases "?k = 15")
    case True
    then show ?thesis
      by (simp add: hex_row_Cons hex_row_Nil)
  next
    case False
    with k have s: "Suc i mod 16 = Suc ?k" by (simp add: mod_Suc)
    then have pos: "0 < Suc i mod 16" by simp
    from False k have t: "16 - ?k = Suc (16 - Suc ?k)" by arith
    have "hex_array i (b # bs) = ''0x'' @ format_02x b @ '','' @ hex_array (Suc i) bs"
      using k by simp
    also have "hex_array (Suc i) bs =
        hex_row (take (16 - Suc ?k) bs) @
        hex_array (Suc i + (16 - Suc ?k)) (drop (16 - Suc ?k) bs)"
      using Cons.IH [OF pos] s by simp
    finally show ?thesis
      unfolding t by (simp add: hex_row_Cons)
  qed
qed

lemma hex_array_line:
  assumes "i mod 16 = 0"
  shows "hex_array i (b # bs) =
     ''\<newline>  '' @ hex_row (take 16 (b # bs)) @ hex_array (i + 16) (drop 16 (b # bs))"
proof -
  have s: "Suc i mod 16 = 1" using assms by (simp add: mod_Suc)
  have "hex_array (Suc i) bs =
      hex_row (take 15 bs) @ hex_array (Suc i + 15) (drop 15 bs)"
    using hex_array_inside [of "Suc i" bs] s by simp
  moreover have "take 16 (b # bs) = b # take 15 bs" "drop 16 (b # bs) = drop 15 bs"
    by (simp_all add: take_Cons' drop_Cons')
  ultimately show ?thesis
    using assms by (simp add: hex_row_Cons add.commute)
qed

lemma hex_array_starts_newline:
  "i mod 16 = 0 \<Longrightarrow> \<exists>e. hex_array i bs @ CHR ''\<newline>'' # t = CHR ''\<newline>'' # e"
  by (cases bs) simp_all

lemma literal_rows_hex_array:
  "i mod 16 = 0 \<Longrightarrow>
   literal_rows (hex_array i bs @ CHR ''\<newline>'' # t) = chunks 16 bs @ literal_rows t"
proof (induction bs arbitrary: i rule: length_induct)
  case (1 bs)
  show ?case
  proof (cases bs)
    case Nil
    then show ?thesis
      by (simp add: literal_rows_newline chunks.simps)
  next
    case (Cons b bs')
    let ?j = "i + 16"
    let ?rest = "drop 16 bs"
    have j: "?j mod 16 = 0" using "1.prems" by simp
    have len: "length ?rest < length bs" using Cons by simp
    have IH: "literal_rows (hex_array ?j ?rest @ CHR ''\<newline>'' # t)
              = chunks 16 ?rest @ literal_rows t"
      using "1.IH" [rule_format, OF len j] .
    obtain e where e: "hex_array ?j ?rest @ CHR ''\<newline>'' # t = CHR ''\<newline>'' # e"
      using hex_array_starts_newline [OF j] by blast
    have rows_e: "literal_rows e = chunks 16 ?rest @ literal_rows t"
      using IH e by (simp add: literal_rows_newline)
    let ?l = "''  '' @ hex_row (take 16 bs)"
    have nl: "CHR ''\<newline>'' \<notin> set ?l"
      using hex_row_no_newline by simp
    have pl: "parse_hex_literals ?l = take 16 bs"
      using parse_hex_row [of "take 16 bs" "[]"]
      by (simp del: parse_hex_literals.simps add: parse_skip parse_hex_literals.simps(1))
    have ne: "take 16 bs \<noteq> []" using Cons by simp
    have "hex_array i bs @ CHR ''\<newline>'' # t = CHR ''\<newline>'' # (?l @ CHR ''\<newline>'' # e)"
      using hex_array_line [OF "1.prems", of b bs'] e Cons by simp
    then have "literal_rows (hex_array i bs @ CHR ''\<newline>'' # t)
               = literal_rows (?l @ CHR ''\<newline>'' # e)"
      by (simp only: literal_rows_newline)
    also have "\<dots> = take 16 bs # literal_rows e"
      using literal_rows_line [OF nl, of e] pl ne by (simp del: parse_hex_literals.simps)
    also have "\<dots> = chunks 16 bs @ literal_rows t"
    proof -
      have "chunks 16 bs = take 16 bs # chunks 16 (drop 16 bs)"
        using Cons by (subst chunks.simps) simp
      then show ?thesis using rows_e by simp
    qed
    finally show ?thesis .
  qed
qed

lemma literal_rows_header: "literal_rows (header_content d) = chunks 16 d"
proof -
  have tail: "literal_rows (header_tail n) = literal_rows []" for n
    unfolding header_tail_def
    by (simp add: literal_rows_newline literal_rows_skip literal_rows_str_nat)
  have "literal_rows (header_content d)
        = literal_rows (hex_array 0 d @ header_tail (length d))"
    unfolding header_content_def header_head_def
    by (simp add: literal_rows_newline literal_rows_skip literal_rows_str_nat)
  also have "\<dots> = chunks 16 d @ literal_rows (tl (header_tail (length d)))"
    using literal_rows_hex_array [of 0 d "tl (header_tail (length d))"]
    by (simp add: header_tail_def)
  also have "literal_rows (tl (header_tail (length d))) = []"
    unfolding header_tail_def
    by (simp add: literal_rows_newline literal_rows_skip literal_rows_str_nat literal_rows_Nil)
  finally show ?thesis by simp
qed

lemma header_content_example:
  "header_content [0xde, 0xad] =
     ''// Auto-generated model header for SporeNet\<newline>'' @
     ''// Model size: 2 bytes\<newline>'' @
     ''\<newline>'' @
     ''#ifndef SPORENET_MODEL_H\<newline>'' @
     ''#define SPORENET_MODEL_H\<newline>'' @
     ''\<newline>'' @
     ''#include <stdint.h>\<newline>'' @
     ''\<newline>'' @
     ''// Model data\<newline>'' @
     ''extern const unsigned char sporenet_model_data[];\<newline>'' @
     ''extern const int sporenet_model_data_len;\<newline>'' @
     ''\<newline>'' @
     ''const unsigned char sporenet_model_data[] = {\<newline>'' @
     ''\<newline>'' @
     ''  0xde,0xad,\<newline>'' @
     ''};\<newline>'' @
     ''\<newline>'' @
     ''const int sporenet_model_data_len = 2;\<newline>'' @
     ''\<newline>'' @
     ''#endif // SPORENET_MODEL_H\<newline>''"
  by (simp add: header_content_def header_head_def header_tail_def str_nat.simps
        dec_digit_def format_02x_def hex_digit_def)

text \<open>
  Claim C3. The header text is a function of the bytes of the binary alone, so the same
  binary always gives the same text. For every binary, of any length: reading the
  hexadecimal literals of the text back gives the binary, byte for byte and in order;
  the length constant the text declares is the number of bytes of the binary; and the
  lines that hold literals hold the bytes in consecutive groups of 16, the last group
  possibly shorter.
\<close>

theorem emit_as_source_round_trip:
  "parse_hex_literals (header_content binary) = binary \<and>
   declared_len (header_content binary) = Some (length binary) \<and>
   literal_rows (header_content binary) = chunks 16 binary"
  by (simp only: parse_header_content declared_len_header literal_rows_header)

theorem emit_as_source_round_trip_witness:
  "parse_hex_literals (header_content [0xde, 0xad]) = [0xde, 0xad] \<and>
   declared_len (header_content [0xde, 0xad]) = Some 2 \<and>
   literal_rows (header_content [0xde, 0xad]) = [[0xde, 0xad]]"
proof -
  have c: "chunks 16 [0xde, 0xad :: byte] = [[0xde, 0xad]]"
    by (simp add: chunks.simps)
  show ?thesis
    using emit_as_source_round_trip [of "[0xde, 0xad]"] c by simp
qed

section \<open>Derived paths\<close>

lemma str_replace_absent:
  "old \<noteq> [] \<Longrightarrow> \<not> sublist old s \<Longrightarrow> str_replace old new s = s"
proof (induction old new s rule: str_replace.induct)
  case (1 old new s)
  show ?case
  proof (cases s)
    case Nil
    then show ?thesis using "1.prems" by (subst str_replace.simps) simp
  next
    case (Cons c cs)
    have np: "\<not> prefix old s" using "1.prems" by (auto dest: prefix_imp_sublist)
    have "\<not> sublist old (tl s)" using "1.prems" Cons by (auto simp: sublist_Cons_right)
    then have "str_replace old new (tl s) = tl s"
      using "1.IH"(2) "1.prems" np Cons by simp
    then show ?thesis
      using np Cons "1.prems" by (subst str_replace.simps) simp
  qed
qed

lemma tf_model_path_example: "tf_model_path_of ''out.tflite'' = ''out_tf_model''"
  by (simp add: tf_model_path_of_def str_replace.simps)

lemma onnx_path_example: "onnx_path_of ''out.tflite'' = ''out.onnx''"
  by (simp add: onnx_path_of_def str_replace.simps)

lemma header_overwrites:
  assumes "read_file (files w) p = Inr data"
  shows "generate_model_header p p w =
           (Inr (), w\<lparr>files := (files w)(p \<mapsto> File (encode_text (header_content data)))\<rparr>)"
  using assms
  by (auto simp: generate_model_header_def read_file_def fs_op_def write_file_def
           split: option.splits entry.splits)

text \<open>
  Claim C9. For every output path that does not contain \<^verbatim>\<open>.tflite\<close>, the three
  paths derived from it by substring replacement are the output path itself: the header
  path, the intermediate ONNX file of convert\_pytorch\_model and the intermediate
  SavedModel folder of convert\_onnx\_model. Generating the header then reads the
  converted binary from the output path and replaces it by the header text.
\<close>

theorem derived_paths_collide:
  assumes "\<not> sublist ''.tflite'' output"
  shows "header_path_of output = output \<and>
         onnx_path_of output = output \<and>
         tf_model_path_of output = output \<and>
         (\<forall>w binary. read_file (files w) output = Inr binary \<longrightarrow>
            generate_model_header output (header_path_of output) (w :: 'w world) =
              (Inr (), w\<lparr>files := (files w)(output \<mapsto>
                             File (encode_text (header_content binary)))\<rparr>))"
  using assms
  by (simp add: header_path_of_def onnx_path_of_def tf_model_path_of_def
        str_replace_absent header_overwrites)

lemma no_tflite_example: "\<not> sublist ''.tflite'' ''model.bin''"
  by (simp add: sublist_Cons_right)

theorem derived_paths_collide_witness:
  "\<not> sublist ''.tflite'' ''model.bin'' \<and>
   header_path_of ''model.bin'' = ''model.bin'' \<and>
   onnx_path_of ''model.bin'' = ''model.bin'' \<and>
   tf_model_path_of ''model.bin'' = ''model.bin'' \<and>
   generate_model_header ''model.bin'' (header_path_of ''model.bin'')
       \<lparr>files = [''model.bin'' \<mapsto> File [0xde, 0xad]], ext = (), calls = []\<rparr> =
     (Inr (), \<lparr>files = [''model.bin'' \<mapsto> File (encode_text (header_content [0xde, 0xad]))],
               ext = (), calls = []\<rparr>)"
proof -
  have r: "read_file (files \<lparr>files = [''model.bin'' \<mapsto> File [0xde, 0xad]], ext = (), calls = []\<rparr>)
             ''model.bin'' = Inr [0xde, 0xad]"
    by (simp add: read_file_def)
  note c = derived_paths_collide [OF no_tflite_example]
  from c have h: "generate_model_header ''model.bin'' (header_path_of ''model.bin'')
       \<lparr>files = [''model.bin'' \<mapsto> File [0xde, 0xad]], ext = (), calls = []\<rparr> =
     (Inr (), \<lparr>files = [''model.bin'' \<mapsto> File [0xde, 0xad]], ext = (), calls = []\<rparr>
        \<lparr>files := (files \<lparr>files = [''model.bin'' \<mapsto> File [0xde, 0xad]], ext = (), calls = []\<rparr>)
           (''model.bin'' \<mapsto> File (encode_text (header_content [0xde, 0xad])))\<rparr>)"
    using r by blast
  from c have p: "header_path_of ''model.bin'' = ''model.bin''"
    "onnx_path_of ''model.bin'' = ''model.bin''"
    "tf_model_path_of ''model.bin'' = ''model.bin''"
    by blast+
  show ?thesis
    using p h no_tflite_example by simp
qed

section \<open>Converter calls and the fallback\<close>

lemmas prog_defs =
  and_then_def try_except_def call_lib_def fs_op_def put_entry_def create_folder_def
  returns_def raise_def

lemma parent_error_example: "parent_error f ''out.tflite'' = None"
  by (simp add: parent_error_def dirname_def is_sep_def)

lemma makedirs_example: "makedirs f ''out_tf_model'' = f(''out_tf_model'' \<mapsto> Dir)"
  by (simp add: makedirs_def ancestors.simps dirname_def is_sep_def)

lemma makedirs_at: "makedirs f p p = Some Dir"
  by (simp add: makedirs_def)

lemma create_folder_result:
  "create_folder p w = (r, w') \<Longrightarrow> r = Inr () \<and> files w' p = Some Dir"
  by (auto simp: create_folder_def makedirs_at)

lemma convert_calls_append:
  "convert_calls (xs @ ys) = convert_calls xs @ convert_calls ys"
  by (induction xs rule: convert_calls.induct) simp_all

lemma load_tensorflow_model_calls:
  "convert_calls (calls (snd (load_tensorflow_model L model_path w))) = convert_calls (calls w)"
  by (auto simp: load_tensorflow_model_def prog_defs convert_calls_append
           split: prod.splits sum.splits option.splits)

lemma load_tensorflow_model_new:
  "load_tensorflow_model L model_path w = (Inr (model, converter), w1) \<Longrightarrow>
   \<exists>src. converter = new_converter src"
  by (auto simp: load_tensorflow_model_def prog_defs
           split: prod.splits sum.splits option.splits if_splits)

lemma save_and_report_calls:
  "convert_calls (calls (snd (save_and_report L output_path b w))) = convert_calls (calls w)"
  by (auto simp: save_and_report_def prog_defs convert_calls_append write_file_def
           split: prod.splits sum.splits option.splits list.splits entry.splits)

text \<open>The two outcomes of the conversion with its fallback.\<close>

lemma convert_with_fallback_ok:
  "tflite_convert L c (ext w) = (Inr b, x) \<Longrightarrow>
   convert_with_fallback L c w = (Inr b, w\<lparr>ext := x, calls := calls w @ [Convert c]\<rparr>)"
  by (simp add: convert_with_fallback_def prog_defs)

lemma convert_with_fallback_retry:
  "tflite_convert L c (ext w) = (Inl e1, x1) \<Longrightarrow>
   tflite_convert L (c\<lparr>optimizations := []\<rparr>) x1 = (r2, x2) \<Longrightarrow>
   convert_with_fallback L c w =
     (r2, w\<lparr>ext := x2, calls := calls w @ [Convert c, Convert (c\<lparr>optimizations := []\<rparr>)]\<rparr>)"
  by (simp add: convert_with_fallback_def prog_defs Let_def)

lemma convert_tensorflow_model_unfold:
  "load_tensorflow_model L model_path w = (Inr (model, converter), w1) \<Longrightarrow>
   convert_tensorflow_model L model_path output_path quantize w =
     and_then (convert_with_fallback L (configure_optimization quantize model converter))
       (save_and_report L output_path) w1"
  by (simp add: convert_tensorflow_model_def and_then_def)

lemma onnx_try_body_calls:
  "length (convert_calls (calls (snd (onnx_try_body L model_path output_path quantize w))))
     \<le> Suc (length (convert_calls (calls w)))"
  by (auto simp: onnx_try_body_def prog_defs convert_calls_append Let_def
           split: prod.splits sum.splits)

lemma convert_onnx_model_calls:
  "length (convert_calls (calls (snd (convert_onnx_model L G model_path output_path quantize w))))
     \<le> Suc (length (convert_calls (calls w)))"
  using onnx_try_body_calls [of L model_path output_path quantize w]
  by (auto simp: convert_onnx_model_def try_except_def raise_def split: prod.splits sum.splits)

lemma and_then_adds_right:
  assumes "\<And>w. length (convert_calls (calls (snd (m w)))) \<le> length (convert_calls (calls w))"
      and "\<And>x w. length (convert_calls (calls (snd (f x w)))) \<le> Suc (length (convert_calls (calls w)))"
  shows "length (convert_calls (calls (snd (and_then m f w)))) \<le> Suc (length (convert_calls (calls w)))"
proof (cases "m w")
  case (Pair r w')
  show ?thesis
  proof (cases r)
    case (Inl e)
    with Pair assms(1) [of w] show ?thesis by (simp add: and_then_def)
  next
    case (Inr x)
    with Pair assms(1) [of w] assms(2) [of x w'] show ?thesis by (simp add: and_then_def)
  qed
qed

lemma and_then_adds_left:
  assumes "\<And>w. length (convert_calls (calls (snd (m w)))) \<le> Suc (length (convert_calls (calls w)))"
      and "\<And>x w. length (convert_calls (calls (snd (f x w)))) \<le> length (convert_calls (calls w))"
  shows "length (convert_calls (calls (snd (and_then m f w)))) \<le> Suc (length (convert_calls (calls w)))"
proof (cases "m w")
  case (Pair r w')
  show ?thesis
  proof (cases r)
    case (Inl e)
    with Pair assms(1) [of w] show ?thesis by (simp add: and_then_def)
  next
    case (Inr x)
    with Pair assms(1) [of w] assms(2) [of x w'] show ?thesis by (simp add: and_then_def)
  qed
qed

lemma call_lib_other:
  "convert_calls [c] = [] \<Longrightarrow>
   length (convert_calls (calls (snd (call_lib c f w)))) \<le> length (convert_calls (calls w))"
  by (simp add: call_lib_def convert_calls_append split: prod.splits)

lemma fs_op_calls:
  "length (convert_calls (calls (snd (fs_op g w)))) \<le> length (convert_calls (calls w))"
  by (simp add: fs_op_def split: sum.splits)

lemma create_folder_calls:
  "length (convert_calls (calls (snd (create_folder p w)))) \<le> length (convert_calls (calls w))"
  by (simp add: create_folder_def)

lemma put_entry_calls:
  "length (convert_calls (calls (snd (put_entry p e w)))) \<le> length (convert_calls (calls w))"
  by (simp add: put_entry_def)

lemma convert_pytorch_model_calls:
  "length (convert_calls (calls (snd (convert_pytorch_model L G model_path output_path quantize w))))
     \<le> Suc (length (convert_calls (calls w)))"
proof (cases "torch_available G")
  case False
  then show ?thesis by (simp add: convert_pytorch_model_def raise_def)
next
  case True
  have onnx: "length (convert_calls (calls (snd
                (convert_onnx_model L G p output_path quantize w'))))
              \<le> Suc (length (convert_calls (calls w')))" for p w'
    using convert_onnx_model_calls [of L G p output_path quantize w'] by simp
  have "length (convert_calls (calls (snd
          (convert_pytorch_model L G model_path output_path quantize w))))
        \<le> Suc (length (convert_calls (calls w)))"
    unfolding convert_pytorch_model_def Let_def using True
    apply simp
    apply (rule and_then_adds_right, rule call_lib_other, simp)
    apply (rule and_then_adds_right, rule call_lib_other, simp)
    apply (rule and_then_adds_right, rule call_lib_other, simp)
    apply (rule and_then_adds_right, rule put_entry_calls)
    apply (rule and_then_adds_left, rule onnx)
    apply (rule fs_op_calls)
    done
  then show ?thesis by simp
qed

lemma try_except_reraise: "try_except m (\<lambda>e. raise e) w = m w"
  by (cases "m w") (auto simp: try_except_def raise_def split: sum.splits)

lemma convert_onnx_model_reraises:
  "onnx_available G \<Longrightarrow>
   convert_onnx_model L G model_path output_path quantize w
     = onnx_try_body L model_path output_path quantize w"
  by (simp add: convert_onnx_model_def try_except_reraise)

lemma onnx_try_body_convert_raises:
  assumes "onnx2tf_convert L (files w) model_path (ext w) = (Inr (), y1)"
      and "from_saved_model L (makedirs (files w) (tf_model_path_of output_path))
             (tf_model_path_of output_path) y1 = (Inr (), y2)"
      and "c = (if quantize
                then new_converter (SavedModelSource (tf_model_path_of output_path))
                       \<lparr>optimizations := [DEFAULT]\<rparr>
                else new_converter (SavedModelSource (tf_model_path_of output_path)))"
      and "tflite_convert L c y2 = (Inl e, y3)"
  shows "onnx_try_body L model_path output_path quantize w =
           (Inl e,
            w\<lparr>ext := y3,
               calls := calls w @ [Onnx2tf model_path (tf_model_path_of output_path),
                                   FromSavedModel (tf_model_path_of output_path), Convert c],
               files := makedirs (files w) (tf_model_path_of output_path)\<rparr>)"
  using assms
  by (auto simp: onnx_try_body_def Let_def and_then_def call_lib_def create_folder_def)

lemma convert_pytorch_model_reraises:
  assumes "torch_available G"
      and "torch_load L (files w) model_path (ext w) = (Inr model, z1)"
      and "model_eval L model z1 = (Inr (), z2)"
      and "torch_onnx_export L model [1, 3, 224, 224] z2 = (Inr b, z3)"
      and "convert_onnx_model L G (onnx_path_of output_path) output_path quantize
             (w\<lparr>ext := z3,
                calls := calls w @ [TorchLoad model_path, ModelEval model,
                   OnnxExport model [1, 3, 224, 224] (onnx_path_of output_path)],
                files := (files w)(onnx_path_of output_path \<mapsto> File b)\<rparr>) = (Inl e, w')"
  shows "convert_pytorch_model L G model_path output_path quantize w = (Inl e, w')"
  using assms
  by (auto simp: convert_pytorch_model_def dummy_input_shape_def Let_def
        and_then_def call_lib_def put_entry_def)

lemma suffix_h5_example: "suffix ''.h5'' ''m.h5''"
  by (simp add: suffix_to_prefix)

lemma load_example:
  "load_tensorflow_model failing_libs ''m.h5'' (start_world ''m.h5'') =
     (Inr (mnist_model, new_converter (KerasSource 1)),
      \<lparr>files = [''m.h5'' \<mapsto> File [1, 2, 3]], ext = (),
       calls = [KerasLoadModel ''m.h5'', FromKerasModel 1]\<rparr>)"
  by (simp add: load_tensorflow_model_def failing_libs_def ok_libs_def start_world_def
        prog_defs mnist_model_def suffix_h5_example)

lemma load_example_ok:
  "load_tensorflow_model ok_libs ''m.h5'' (start_world ''m.h5'') =
     (Inr (mnist_model, new_converter (KerasSource 1)),
      \<lparr>files = [''m.h5'' \<mapsto> File [1, 2, 3]], ext = (),
       calls = [KerasLoadModel ''m.h5'', FromKerasModel 1]\<rparr>)"
  by (simp add: load_tensorflow_model_def ok_libs_def start_world_def
        prog_defs mnist_model_def suffix_h5_example)

text \<open>
  Claim C1, as amended. In convert\_tensorflow\_model, when the first call of
  \<^verbatim>\<open>converter.convert()\<close> raises, the converter is called exactly once more, with
  \<^verbatim>\<open>optimizations\<close> emptied; when that call raises too, its exception is the one the
  function raises, and there is no further call. So a converter that always raises is
  called exactly twice. convert\_onnx\_model and convert\_pytorch\_model have no retry:
  they call the converter at most once, the handler of convert\_onnx\_model re-raises
  every exception of its body, so an exception of \<^verbatim>\<open>converter.convert()\<close> is the one
  that convert\_onnx\_model raises, after that single call, and convert\_pytorch\_model
  raises the exception of convert\_onnx\_model.
\<close>

theorem fallback_retries_once:
  "(load_tensorflow_model L model_path w = (Inr (model, converter), w1) \<and>
    cfg = configure_optimization quantize model converter \<and>
    tflite_convert L cfg (ext w1) = (Inl e1, x1) \<and>
    tflite_convert L (cfg\<lparr>optimizations := []\<rparr>) x1 = (r2, x2) \<longrightarrow>
      convert_calls (calls (snd (convert_tensorflow_model L model_path output_path quantize w)))
        = convert_calls (calls w) @ [cfg, cfg\<lparr>optimizations := []\<rparr>] \<and>
      (\<forall>e2. r2 = Inl e2 \<longrightarrow>
         convert_tensorflow_model L model_path output_path quantize w =
           (Inl e2, w1\<lparr>ext := x2,
                       calls := calls w1 @
                         [Convert cfg, Convert (cfg\<lparr>optimizations := []\<rparr>)]\<rparr>))) \<and>
   length (convert_calls (calls (snd
       (convert_onnx_model L G onnx_path output_path quantize wo))))
     \<le> Suc (length (convert_calls (calls wo))) \<and>
   (onnx_available G \<longrightarrow>
      convert_onnx_model L G onnx_path output_path quantize wo
        = onnx_try_body L onnx_path output_path quantize wo) \<and>
   (onnx_available G \<and>
    onnx2tf_convert L (files wo) onnx_path (ext wo) = (Inr (), y1) \<and>
    from_saved_model L (makedirs (files wo) (tf_model_path_of output_path))
      (tf_model_path_of output_path) y1 = (Inr (), y2) \<and>
    c = (if quantize
         then new_converter (SavedModelSource (tf_model_path_of output_path))
                \<lparr>optimizations := [DEFAULT]\<rparr>
         else new_converter (SavedModelSource (tf_model_path_of output_path))) \<and>
    tflite_convert L c y2 = (Inl e, y3) \<longrightarrow>
      convert_onnx_model L G onnx_path output_path quantize wo =
        (Inl e,
         wo\<lparr>ext := y3,
             calls := calls wo @ [Onnx2tf onnx_path (tf_model_path_of output_path),
                                  FromSavedModel (tf_model_path_of output_path), Convert c],
             files := makedirs (files wo) (tf_model_path_of output_path)\<rparr>)) \<and>
   length (convert_calls (calls (snd
       (convert_pytorch_model L G torch_path output_path quantize wp))))
     \<le> Suc (length (convert_calls (calls wp))) \<and>
   (torch_available G \<and>
    torch_load L (files wp) torch_path (ext wp) = (Inr tmodel, z1) \<and>
    model_eval L tmodel z1 = (Inr (), z2) \<and>
    torch_onnx_export L tmodel [1, 3, 224, 224] z2 = (Inr b, z3) \<and>
    convert_onnx_model L G (onnx_path_of output_path) output_path quantize
      (wp\<lparr>ext := z3,
          calls := calls wp @ [TorchLoad torch_path, ModelEval tmodel,
             OnnxExport tmodel [1, 3, 224, 224] (onnx_path_of output_path)],
          files := (files wp)(onnx_path_of output_path \<mapsto> File b)\<rparr>) = (Inl e', w') \<longrightarrow>
      convert_pytorch_model L G torch_path output_path quantize wp = (Inl e', w'))"
proof -
  have tf: "convert_calls (calls (snd (convert_tensorflow_model L model_path output_path
                quantize w)))
              = convert_calls (calls w) @ [cfg, cfg\<lparr>optimizations := []\<rparr>] \<and>
            (\<forall>e2. r2 = Inl e2 \<longrightarrow>
               convert_tensorflow_model L model_path output_path quantize w =
                 (Inl e2, w1\<lparr>ext := x2,
                             calls := calls w1 @
                               [Convert cfg, Convert (cfg\<lparr>optimizations := []\<rparr>)]\<rparr>))"
    if load: "load_tensorflow_model L model_path w = (Inr (model, converter), w1)"
      and cfg: "cfg = configure_optimization quantize model converter"
      and a1: "tflite_convert L cfg (ext w1) = (Inl e1, x1)"
      and a2: "tflite_convert L (cfg\<lparr>optimizations := []\<rparr>) x1 = (r2, x2)"
  proof -
    let ?w2 = "w1\<lparr>ext := x2,
                   calls := calls w1 @ [Convert cfg, Convert (cfg\<lparr>optimizations := []\<rparr>)]\<rparr>"
    have fb: "convert_with_fallback L cfg w1 = (r2, ?w2)"
      using convert_with_fallback_retry [OF a1 a2] .
    have un: "convert_tensorflow_model L model_path output_path quantize w =
                and_then (convert_with_fallback L cfg) (save_and_report L output_path) w1"
      using convert_tensorflow_model_unfold [OF load] cfg by simp
    have w1: "convert_calls (calls w1) = convert_calls (calls w)"
      using load_tensorflow_model_calls [of L model_path w] load by simp
    have two: "convert_calls (calls ?w2)
               = convert_calls (calls w) @ [cfg, cfg\<lparr>optimizations := []\<rparr>]"
      by (simp add: convert_calls_append w1)
    have 1: "convert_calls (calls (snd (convert_tensorflow_model L model_path output_path
                quantize w)))
             = convert_calls (calls w) @ [cfg, cfg\<lparr>optimizations := []\<rparr>]"
    proof (cases r2)
      case (Inl e2)
      then show ?thesis using un fb two by (simp add: and_then_def)
    next
      case (Inr bytes)
      then have "convert_tensorflow_model L model_path output_path quantize w
                 = save_and_report L output_path bytes ?w2"
        using un fb by (simp add: and_then_def)
      then show ?thesis
        using save_and_report_calls [of L output_path bytes ?w2] two by simp
    qed
    have 2: "\<forall>e2. r2 = Inl e2 \<longrightarrow>
              convert_tensorflow_model L model_path output_path quantize w = (Inl e2, ?w2)"
      using un fb by (simp add: and_then_def)
    show ?thesis using 1 2 by blast
  qed
  have on: "convert_onnx_model L G onnx_path output_path quantize wo =
        (Inl e,
         wo\<lparr>ext := y3,
             calls := calls wo @ [Onnx2tf onnx_path (tf_model_path_of output_path),
                                  FromSavedModel (tf_model_path_of output_path), Convert c],
             files := makedirs (files wo) (tf_model_path_of output_path)\<rparr>)"
    if "onnx_available G"
      and "onnx2tf_convert L (files wo) onnx_path (ext wo) = (Inr (), y1)"
      and "from_saved_model L (makedirs (files wo) (tf_model_path_of output_path))
             (tf_model_path_of output_path) y1 = (Inr (), y2)"
      and "c = (if quantize
         then new_converter (SavedModelSource (tf_model_path_of output_path))
                \<lparr>optimizations := [DEFAULT]\<rparr>
         else new_converter (SavedModelSource (tf_model_path_of output_path)))"
      and "tflite_convert L c y2 = (Inl e, y3)"
    unfolding convert_onnx_model_reraises [OF that(1)]
    by (rule onnx_try_body_convert_raises [OF that(2) that(3) that(4) that(5)])
  show ?thesis
    using tf on convert_onnx_model_calls [of L G onnx_path output_path quantize wo]
      convert_onnx_model_reraises [of G L onnx_path output_path quantize wo]
      convert_pytorch_model_calls [of L G torch_path output_path quantize wp]
      convert_pytorch_model_reraises [of G L wp torch_path tmodel z1 z2 b z3 output_path
         quantize e' w']
    by blast
qed

theorem fallback_retries_once_witness:
  "convert_calls (calls (snd (convert_tensorflow_model failing_libs ''m.h5'' ''out.tflite'' True
        (start_world ''m.h5'')))) =
     [configure_optimization True mnist_model (new_converter (KerasSource 1)),
      (configure_optimization True mnist_model (new_converter (KerasSource 1)))
        \<lparr>optimizations := []\<rparr>] \<and>
   fst (convert_tensorflow_model failing_libs ''m.h5'' ''out.tflite'' True
        (start_world ''m.h5'')) = Inl (LibraryError ''convert'') \<and>
   convert_onnx_model failing_libs all_available ''m.onnx'' ''out.tflite'' True
        (start_world ''m.onnx'') =
     (Inl (LibraryError ''convert''),
      \<lparr>files = [''m.onnx'' \<mapsto> File [1, 2, 3], ''out_tf_model'' \<mapsto> Dir], ext = (),
       calls = [Onnx2tf ''m.onnx'' ''out_tf_model'', FromSavedModel ''out_tf_model'',
                Convert ((new_converter (SavedModelSource ''out_tf_model''))
                           \<lparr>optimizations := [DEFAULT]\<rparr>)]\<rparr>) \<and>
   convert_pytorch_model failing_libs all_available ''m.pt'' ''out.tflite'' True
        (start_world ''m.pt'') =
     (Inl (LibraryError ''convert''),
      \<lparr>files = [''m.pt'' \<mapsto> File [1, 2, 3], ''out.onnx'' \<mapsto> File [8, 1],
                ''out_tf_model'' \<mapsto> Dir], ext = (),
       calls = [TorchLoad ''m.pt'', ModelEval 7, OnnxExport 7 [1, 3, 224, 224] ''out.onnx'',
                Onnx2tf ''out.onnx'' ''out_tf_model'', FromSavedModel ''out_tf_model'',
                Convert ((new_converter (SavedModelSource ''out_tf_model''))
                           \<lparr>optimizations := [DEFAULT]\<rparr>)]\<rparr>)"
proof -
  let ?cfg = "configure_optimization True mnist_model (new_converter (KerasSource 1))"
  let ?w1 = "\<lparr>files = [''m.h5'' \<mapsto> File [1, 2, 3]], ext = (),
       calls = [KerasLoadModel ''m.h5'', FromKerasModel 1]\<rparr>"
  let ?tf = "tf_model_path_of ''out.tflite''"
  let ?c = "(new_converter (SavedModelSource ?tf))\<lparr>optimizations := [DEFAULT]\<rparr>"
  let ?wo = "start_world ''m.onnx''"
  let ?wp = "(start_world ''m.pt'')
       \<lparr>ext := (),
        calls := calls (start_world ''m.pt'') @ [TorchLoad ''m.pt'', ModelEval 7,
           OnnxExport 7 [1, 3, 224, 224] (onnx_path_of ''out.tflite'')],
        files := (files (start_world ''m.pt''))(onnx_path_of ''out.tflite'' \<mapsto> File [8, 1])\<rparr>"
  let ?after = "\<lambda>p w. w\<lparr>ext := (),
             calls := calls w @ [Onnx2tf p ?tf, FromSavedModel ?tf, Convert ?c],
             files := makedirs (files w) ?tf\<rparr>"
  have a1: "tflite_convert failing_libs ?cfg (ext ?w1) = (Inl (LibraryError ''convert''), ())"
    by (simp add: failing_libs_def)
  have a2: "tflite_convert failing_libs (?cfg\<lparr>optimizations := []\<rparr>) () =
              (Inl (LibraryError ''convert''), ())"
    by (simp add: failing_libs_def)
  have av: "onnx_available all_available" "torch_available all_available"
    by (simp_all add: all_available_def)
  have ceq: "?c = (if True then new_converter (SavedModelSource ?tf)\<lparr>optimizations := [DEFAULT]\<rparr>
                   else new_converter (SavedModelSource ?tf))"
    by simp
  have o1: "onnx2tf_convert failing_libs (files ?wo) ''m.onnx'' (ext ?wo) = (Inr (), ())"
    by (simp add: failing_libs_def ok_libs_def)
  have o1p: "onnx2tf_convert failing_libs (files ?wp) (onnx_path_of ''out.tflite'') (ext ?wp)
               = (Inr (), ())"
    by (simp add: failing_libs_def ok_libs_def)
  have o2: "from_saved_model failing_libs (makedirs (files ?wo) ?tf) ?tf () = (Inr (), ())"
    by (simp add: failing_libs_def ok_libs_def)
  have o2p: "from_saved_model failing_libs (makedirs (files ?wp) ?tf) ?tf () = (Inr (), ())"
    by (simp add: failing_libs_def ok_libs_def)
  have o3: "tflite_convert failing_libs ?c () = (Inl (LibraryError ''convert''), ())"
    by (simp add: failing_libs_def)
  have p1: "torch_load failing_libs (files (start_world ''m.pt'')) ''m.pt''
              (ext (start_world ''m.pt'')) = (Inr 7, ())"
    by (simp add: failing_libs_def ok_libs_def)
  have p2: "model_eval failing_libs 7 () = (Inr (), ())"
    by (simp add: failing_libs_def ok_libs_def)
  have p3: "torch_onnx_export failing_libs 7 [1, 3, 224, 224] () = (Inr [8, 1], ())"
    by (simp add: failing_libs_def ok_libs_def)
  note t = fallback_retries_once [where L = failing_libs and G = all_available
      and model_path = "''m.h5''" and w = "start_world ''m.h5''" and model = mnist_model
      and converter = "new_converter (KerasSource 1)" and ?w1.0 = ?w1 and cfg = ?cfg
      and quantize = True and ?e1.0 = "LibraryError ''convert''" and ?x1.0 = "()"
      and ?r2.0 = "Inl (LibraryError ''convert'')" and ?x2.0 = "()"
      and output_path = "''out.tflite''"
      and onnx_path = "''m.onnx''" and wo = ?wo
      and ?y1.0 = "()" and ?y2.0 = "()" and c = ?c and e = "LibraryError ''convert''"
      and ?y3.0 = "()"
      and torch_path = "''m.pt''" and wp = "start_world ''m.pt''" and tmodel = 7
      and ?z1.0 = "()" and ?z2.0 = "()" and b = "[8, 1]" and ?z3.0 = "()"
      and e' = "LibraryError ''convert''" and w' = "?after (onnx_path_of ''out.tflite'') ?wp"]
  note u = fallback_retries_once [where L = failing_libs and G = all_available
      and model_path = "''m.h5''" and w = "start_world ''m.h5''" and model = mnist_model
      and converter = "new_converter (KerasSource 1)" and ?w1.0 = ?w1 and cfg = ?cfg
      and quantize = True and ?e1.0 = "LibraryError ''convert''" and ?x1.0 = "()"
      and ?r2.0 = "Inl (LibraryError ''convert'')" and ?x2.0 = "()"
      and output_path = "''out.tflite''"
      and onnx_path = "onnx_path_of ''out.tflite''" and wo = ?wp
      and ?y1.0 = "()" and ?y2.0 = "()" and c = ?c and e = "LibraryError ''convert''"
      and ?y3.0 = "()"
      and torch_path = "''m.pt''" and wp = "start_world ''m.pt''" and tmodel = 7
      and ?z1.0 = "()" and ?z2.0 = "()" and b = "[8, 1]" and ?z3.0 = "()"
      and e' = "LibraryError ''convert''" and w' = "?after (onnx_path_of ''out.tflite'') ?wp"]
  from t load_example a1 a2
  have tf1: "convert_calls (calls (snd (convert_tensorflow_model failing_libs ''m.h5''
        ''out.tflite'' True (start_world ''m.h5'')))) =
        convert_calls (calls (start_world ''m.h5'')) @ [?cfg, ?cfg\<lparr>optimizations := []\<rparr>]"
    by blast
  from t load_example a1 a2
  have tf2: "convert_tensorflow_model failing_libs ''m.h5'' ''out.tflite'' True
        (start_world ''m.h5'') =
        (Inl (LibraryError ''convert''), ?w1\<lparr>ext := (),
             calls := calls ?w1 @ [Convert ?cfg, Convert (?cfg\<lparr>optimizations := []\<rparr>)]\<rparr>)"
    by blast
  from t av(1) o1 o2 o3 ceq
  have on: "convert_onnx_model failing_libs all_available ''m.onnx'' ''out.tflite'' True ?wo
              = (Inl (LibraryError ''convert''), ?after ''m.onnx'' ?wo)"
    by blast
  from u av(1) o1p o2p o3 ceq
  have inner: "convert_onnx_model failing_libs all_available (onnx_path_of ''out.tflite'')
        ''out.tflite'' True ?wp
              = (Inl (LibraryError ''convert''), ?after (onnx_path_of ''out.tflite'') ?wp)"
    by blast
  from t av(2) p1 p2 p3 inner
  have pt: "convert_pytorch_model failing_libs all_available ''m.pt'' ''out.tflite'' True
        (start_world ''m.pt'')
              = (Inl (LibraryError ''convert''), ?after (onnx_path_of ''out.tflite'') ?wp)"
    by blast
  show ?thesis
    unfolding on pt
    using tf1 tf2
    by (simp add: start_world_def tf_model_path_example onnx_path_example makedirs_example)
qed

text \<open>
  The claim as stated fails for convert\_onnx\_model: a converter that always raises is
  called once, not twice.
\<close>

theorem onnx_no_retry_counterexample:
  "length (convert_calls (calls (snd (convert_onnx_model failing_libs all_available
       ''m.onnx'' ''out.tflite'' True (start_world ''m.onnx''))))) = 1 \<and>
   fst (convert_onnx_model failing_libs all_available
       ''m.onnx'' ''out.tflite'' True (start_world ''m.onnx'')) = Inl (LibraryError ''convert'')"
  by (simp add: convert_onnx_model_def onnx_try_body_def all_available_def failing_libs_def
        ok_libs_def start_world_def prog_defs Let_def)

section \<open>Dispatch and the output file\<close>

text \<open>
  Claim C5. When the model path does not exist, main ends with a non-zero exit code and
  leaves the state as it was: no file is created and no library is called, so no
  converter runs. The failure is the missing model file, reported by the check at the
  start of main, whenever setup\_imports has returned (that is, TensorFlow itself is
  installed; otherwise the script has already ended in setup\_imports, with exit code 1).
\<close>

theorem missing_input_fails_at_dispatch:
  assumes "\<not> path_exists (files w) (arg_model a)"
  shows "exit_code (fst (main L inst a w)) \<noteq> 0 \<and>
         snd (main L inst a w) = w \<and>
         (has_tensorflow inst \<longrightarrow>
            fst (main L inst a w) = Exit1 (ModelFileNotFound (arg_model a)))"
  using assms
  by (simp add: main_def setup_imports_def exit_code_def)

theorem missing_input_fails_at_dispatch_witness:
  "\<not> path_exists (files (start_world ''m.h5'')) ''missing.h5'' \<and>
   main ok_libs all_installed
     \<lparr>arg_model = ''missing.h5'', arg_framework = tensorflow, arg_output = ''out.tflite'',
      arg_quantize = True, arg_generate_header = False\<rparr> (start_world ''m.h5'')
   = (Exit1 (ModelFileNotFound ''missing.h5''), start_world ''m.h5'')"
proof -
  let ?a = "\<lparr>arg_model = ''missing.h5'', arg_framework = tensorflow,
             arg_output = ''out.tflite'', arg_quantize = True, arg_generate_header = False\<rparr>"
  have h: "\<not> path_exists (files (start_world ''m.h5'')) (arg_model ?a)"
    by (simp add: path_exists_def start_world_def)
  have i: "has_tensorflow all_installed" by (simp add: all_installed_def)
  show ?thesis
    using missing_input_fails_at_dispatch [OF h, of ok_libs all_installed] h i
    by (simp add: prod_eq_iff)
qed

text \<open>
  Claim C10. In convert\_tensorflow\_model the interpreter is called only after the
  converted model has been written to the output path. When the write raises (the
  output path is a directory, or its parent directory is missing), the function raises
  that exception without calling the interpreter. When the write succeeds, the output
  path holds exactly the converted bytes at the call of the interpreter and still does
  when the function ends, whatever the interpreter answers: if the interpreter raises,
  that exception is raised and the output file stays.
\<close>

theorem output_written_before_inspection:
  assumes "load_tensorflow_model L model_path w = (Inr (model, converter), w1)"
      and "convert_with_fallback L (configure_optimization quantize model converter) w1
             = (Inr tflite_model, w2)"
      and "interpreter_details L tflite_model (ext w2) = (r, x)"
  shows "(\<forall>e. write_file (files w2) output_path tflite_model = Inl e \<longrightarrow>
            convert_tensorflow_model L model_path output_path quantize w = (Inl e, w2)) \<and>
         (\<forall>f'. write_file (files w2) output_path tflite_model = Inr f' \<longrightarrow>
            f' output_path = Some (File tflite_model) \<and>
            snd (convert_tensorflow_model L model_path output_path quantize w)
              = w2\<lparr>files := f', ext := x,
                    calls := calls w2 @ [Interpreter tflite_model]\<rparr> \<and>
            (\<forall>e. r = Inl e \<longrightarrow>
               fst (convert_tensorflow_model L model_path output_path quantize w) = Inl e))"
proof -
  have un: "convert_tensorflow_model L model_path output_path quantize w =
              save_and_report L output_path tflite_model w2"
    using convert_tensorflow_model_unfold [OF assms(1)] assms(2) by (simp add: and_then_def)
  have 1: "\<forall>e. write_file (files w2) output_path tflite_model = Inl e \<longrightarrow>
            save_and_report L output_path tflite_model w2 = (Inl e, w2)"
    by (simp add: save_and_report_def and_then_def fs_op_def)
  have at: "f' output_path = Some (File tflite_model)"
    if "write_file (files w2) output_path tflite_model = Inr f'" for f'
    using that by (auto simp: write_file_def split: option.splits entry.splits)
  have 2: "snd (save_and_report L output_path tflite_model w2)
              = w2\<lparr>files := f', ext := x, calls := calls w2 @ [Interpreter tflite_model]\<rparr> \<and>
           (\<forall>e. r = Inl e \<longrightarrow>
               fst (save_and_report L output_path tflite_model w2) = Inl e)"
    if "write_file (files w2) output_path tflite_model = Inr f'" for f'
    using that assms(3)
    by (auto simp: save_and_report_def and_then_def fs_op_def call_lib_def raise_def
               returns_def
             split: sum.splits list.splits)
  show ?thesis
    unfolding un using 1 at 2 by blast
qed

lemma load_example_rejecting:
  "load_tensorflow_model rejecting_libs ''m.h5'' (start_world ''m.h5'') =
     (Inr (mnist_model, new_converter (KerasSource 1)),
      \<lparr>files = [''m.h5'' \<mapsto> File [1, 2, 3]], ext = (),
       calls = [KerasLoadModel ''m.h5'', FromKerasModel 1]\<rparr>)"
  by (simp add: load_tensorflow_model_def rejecting_libs_def ok_libs_def start_world_def
        prog_defs mnist_model_def suffix_h5_example)

lemma parent_error_missing_example:
  "parent_error [''m.h5'' \<mapsto> File [1, 2, 3]] ''nodir/out.tflite''
     = Some (FileNotFoundError ''nodir/out.tflite'')"
  by (simp add: parent_error_def dirname_def is_sep_def)

theorem output_written_before_inspection_witness:
  "convert_tensorflow_model rejecting_libs ''m.h5'' ''out.tflite'' False (start_world ''m.h5'')
   = (Inl (LibraryError ''interpreter''),
      \<lparr>files = [''m.h5'' \<mapsto> File [1, 2, 3], ''out.tflite'' \<mapsto> File [0x1c, 0, 0, 0]],
       ext = (),
       calls = [KerasLoadModel ''m.h5'', FromKerasModel 1,
                Convert (new_converter (KerasSource 1)), Interpreter [0x1c, 0, 0, 0]]\<rparr>) \<and>
   convert_tensorflow_model rejecting_libs ''m.h5'' ''nodir/out.tflite'' False
     (start_world ''m.h5'')
   = (Inl (FileNotFoundError ''nodir/out.tflite''),
      \<lparr>files = [''m.h5'' \<mapsto> File [1, 2, 3]], ext = (),
       calls = [KerasLoadModel ''m.h5'', FromKerasModel 1,
                Convert (new_converter (KerasSource 1))]\<rparr>)"
proof -
  let ?w1 = "\<lparr>files = [''m.h5'' \<mapsto> File [1, 2, 3]], ext = (),
       calls = [KerasLoadModel ''m.h5'', FromKerasModel 1]\<rparr>"
  let ?c = "new_converter (KerasSource 1)"
  let ?w2 = "?w1\<lparr>ext := (), calls := calls ?w1 @ [Convert ?c]\<rparr>"
  have cfg: "configure_optimization False mnist_model ?c = ?c"
    by (simp add: configure_optimization_def)
  have conv: "convert_with_fallback rejecting_libs
                (configure_optimization False mnist_model ?c) ?w1 = (Inr [0x1c, 0, 0, 0], ?w2)"
    unfolding cfg
    by (rule convert_with_fallback_ok) (simp add: rejecting_libs_def ok_libs_def)
  have insp: "interpreter_details rejecting_libs [0x1c, 0, 0, 0] (ext ?w2)
              = (Inl (LibraryError ''interpreter''), ())"
    by (simp add: rejecting_libs_def)
  have wr: "write_file (files ?w2) ''out.tflite'' [0x1c, 0, 0, 0]
            = Inr ((files ?w2)(''out.tflite'' \<mapsto> File [0x1c, 0, 0, 0]))"
    by (simp add: write_file_def parent_error_example)
  have nw: "write_file (files ?w2) ''nodir/out.tflite'' [0x1c, 0, 0, 0]
            = Inl (FileNotFoundError ''nodir/out.tflite'')"
    by (simp add: write_file_def parent_error_missing_example)
  note t = output_written_before_inspection [OF load_example_rejecting conv insp,
             of "''out.tflite''"]
  from t wr have s: "snd (convert_tensorflow_model rejecting_libs ''m.h5'' ''out.tflite'' False
             (start_world ''m.h5''))
           = ?w2\<lparr>files := (files ?w2)(''out.tflite'' \<mapsto> File [0x1c, 0, 0, 0]), ext := (),
                  calls := calls ?w2 @ [Interpreter [0x1c, 0, 0, 0]]\<rparr>"
    by blast
  from t wr have f: "fst (convert_tensorflow_model rejecting_libs ''m.h5'' ''out.tflite'' False
             (start_world ''m.h5'')) = Inl (LibraryError ''interpreter'')"
    by blast
  note u = output_written_before_inspection [OF load_example_rejecting conv insp,
             of "''nodir/out.tflite''"]
  from u nw have n: "convert_tensorflow_model rejecting_libs ''m.h5'' ''nodir/out.tflite''
             False (start_world ''m.h5'') = (Inl (FileNotFoundError ''nodir/out.tflite''), ?w2)"
    by blast
  show ?thesis
    using s f n by (simp add: prod_eq_iff)
qed

section \<open>Intermediate files\<close>

lemma and_then_InrE:
  assumes "and_then m f w = (Inr u, w')"
  obtains x w1 where "m w = (Inr x, w1)" and "f x w1 = (Inr u, w')"
  using assms by (auto simp: and_then_def split: prod.splits sum.splits)

lemma and_then_InlE:
  assumes "and_then m f w = (Inl e, w')"
  obtains "m w = (Inl e, w')" | x w1 where "m w = (Inr x, w1)" and "f x w1 = (Inl e, w')"
  using assms by (auto simp: and_then_def split: prod.splits sum.splits)

lemma call_lib_files: "call_lib c f w = (r, w') \<Longrightarrow> files w' = files w"
  by (auto simp: call_lib_def split: prod.splits)

lemma call_lib_result: "call_lib c f w = (r, w') \<Longrightarrow> fst (f (ext w)) = r"
  by (auto simp: call_lib_def split: prod.splits)

lemma put_entry_result:
  "put_entry p e w = (r, w') \<Longrightarrow> r = Inr () \<and> files w' = (files w)(p \<mapsto> e)"
  by (auto simp: put_entry_def)

lemma fs_op_write_Inr:
  "fs_op (\<lambda>f. write_file f p b) w = (Inr u, w') \<Longrightarrow>
   files w p \<noteq> Some Dir \<and> files w' = (files w)(p \<mapsto> File b)"
  by (auto simp: fs_op_def write_file_def split: sum.splits option.splits entry.splits)

lemma fs_op_Inl: "fs_op g w = (Inl e, w') \<Longrightarrow> w' = w \<and> g (files w) = Inl e"
  by (auto simp: fs_op_def split: sum.splits)

lemma fs_op_rmtree_Inr:
  "fs_op (\<lambda>f. shutil_rmtree f p) w = (Inr u, w') \<Longrightarrow> files w' p = None"
  by (auto simp: fs_op_def shutil_rmtree_def split: sum.splits option.splits entry.splits)

lemma fs_op_remove_Inr:
  "fs_op (\<lambda>f. os_remove f p) w = (Inr u, w') \<Longrightarrow> files w' = (files w)(p := None)"
  by (auto simp: fs_op_def os_remove_def split: sum.splits option.splits entry.splits)

lemma onnx_try_body_success:
  assumes "onnx_try_body L model_path output_path quantize w = (Inr u, w')"
  shows "files w' (tf_model_path_of output_path) = None"
  using assms unfolding onnx_try_body_def Let_def
  by (elim and_then_InrE) (rule fs_op_rmtree_Inr)

lemma convert_onnx_model_success:
  "convert_onnx_model L G model_path output_path quantize w = (Inr u, w') \<Longrightarrow>
   files w' (tf_model_path_of output_path) = None"
  by (auto simp: convert_onnx_model_def try_except_def raise_def
           split: if_splits prod.splits sum.splits dest: onnx_try_body_success)

lemma onnx_try_body_failure:
  assumes "onnx2tf_convert L (files w) model_path (ext w) = (Inr (), x1)"
      and "onnx_try_body L model_path output_path quantize w = (Inl e, w')"
  shows "files w' (tf_model_path_of output_path) = Some Dir"
  using assms(2) unfolding onnx_try_body_def Let_def
proof (elim and_then_InlE, goal_cases)
  case 1
  then show ?case using assms(1) by (auto dest: call_lib_result)
next
  case (2 x w1)
  then show ?case by (auto dest: create_folder_result)
next
  case (3 x w1 xa w1a)
  then show ?case by (auto dest!: create_folder_result call_lib_files)
next
  case (4 x w1 xa w1a xb w1b)
  then show ?case by (auto dest!: create_folder_result call_lib_files)
next
  case (5 x w1 xa w1a xb w1b xc w1c)
  then show ?case by (auto dest!: create_folder_result call_lib_files fs_op_Inl)
next
  case (6 x w1 xa w1a xb w1b xc w1c xd w1d)
  then have d: "files w1c (tf_model_path_of output_path) = Some Dir"
    by (auto dest!: create_folder_result call_lib_files)
  from 6 have wr: "files w1c output_path \<noteq> Some Dir"
      "files w1d = (files w1c)(output_path \<mapsto> File xc)"
    by (auto dest!: fs_op_write_Inr)
  from d wr have "files w1d (tf_model_path_of output_path) = Some Dir" by auto
  moreover from 6 have "shutil_rmtree (files w1d) (tf_model_path_of output_path) = Inl e"
    by (auto dest!: fs_op_Inl)
  ultimately show ?case by (simp add: shutil_rmtree_def)
qed

lemma convert_onnx_model_failure:
  "onnx_available G \<Longrightarrow>
   onnx2tf_convert L (files w) model_path (ext w) = (Inr (), x1) \<Longrightarrow>
   convert_onnx_model L G model_path output_path quantize w = (Inl e, w') \<Longrightarrow>
   files w' (tf_model_path_of output_path) = Some Dir"
  by (auto simp: convert_onnx_model_def try_except_def raise_def
           split: if_splits prod.splits sum.splits dest: onnx_try_body_failure)

lemma convert_pytorch_model_success:
  assumes "convert_pytorch_model L G model_path output_path quantize w = (Inr u, w')"
  shows "files w' (onnx_path_of output_path) = None \<and>
         files w' (tf_model_path_of output_path) = None"
proof (cases "torch_available G")
  case False
  with assms show ?thesis by (simp add: convert_pytorch_model_def raise_def)
next
  case True
  from assms True show ?thesis
    unfolding convert_pytorch_model_def Let_def
    apply simp
    apply (elim and_then_InrE)
    apply (auto dest!: convert_onnx_model_success fs_op_remove_Inr)
    done
qed

text \<open>
  Claim C2, as amended. When convert\_onnx\_model returns normally, its intermediate
  SavedModel folder does not exist afterwards; when convert\_pytorch\_model returns
  normally, neither its intermediate ONNX file nor that folder exists afterwards. There
  is no cleanup on the failure path: when convert\_onnx\_model raises after onnx2tf has
  created the folder, the folder is still there.
\<close>

theorem intermediate_paths_after_convert:
  "(convert_onnx_model L G model_path output_path quantize w = (Inr u, w') \<longrightarrow>
      files w' (tf_model_path_of output_path) = None) \<and>
   (convert_pytorch_model L G model_path output_path quantize w = (Inr u, w') \<longrightarrow>
      files w' (onnx_path_of output_path) = None \<and>
      files w' (tf_model_path_of output_path) = None) \<and>
   (onnx_available G \<and>
    onnx2tf_convert L (files w) model_path (ext w) = (Inr (), x1) \<and>
    convert_onnx_model L G model_path output_path quantize w = (Inl e, w') \<longrightarrow>
      files w' (tf_model_path_of output_path) = Some Dir)"
  using convert_onnx_model_success [of L G model_path output_path quantize w u w']
        convert_pytorch_model_success [of L G model_path output_path quantize w u w']
        convert_onnx_model_failure [of G L w model_path x1 output_path quantize e w']
  by blast

lemma onnx_ok_run:
  "fst (convert_onnx_model ok_libs all_available ''m.onnx'' ''out.tflite'' True
          (start_world ''m.onnx'')) = Inr ()"
  by (simp add: convert_onnx_model_def onnx_try_body_def all_available_def ok_libs_def
        start_world_def prog_defs Let_def tf_model_path_example write_file_def
        shutil_rmtree_def parent_error_example makedirs_example)

lemma pytorch_ok_run:
  "fst (convert_pytorch_model ok_libs all_available ''m.pt'' ''out.tflite'' True
          (start_world ''m.pt'')) = Inr ()"
  by (simp add: convert_pytorch_model_def convert_onnx_model_def onnx_try_body_def
        all_available_def ok_libs_def start_world_def prog_defs Let_def
        tf_model_path_example onnx_path_example write_file_def shutil_rmtree_def
        os_remove_def parent_error_example makedirs_example)

lemma onnx_failing_run:
  "fst (convert_onnx_model failing_libs all_available ''m.onnx'' ''out.tflite'' True
          (start_world ''m.onnx'')) = Inl (LibraryError ''convert'')"
  by (simp add: convert_onnx_model_def onnx_try_body_def all_available_def failing_libs_def
        ok_libs_def start_world_def prog_defs Let_def)

theorem intermediate_paths_after_convert_witness:
  "fst (convert_onnx_model ok_libs all_available ''m.onnx'' ''out.tflite'' True
          (start_world ''m.onnx'')) = Inr () \<and>
   files (snd (convert_onnx_model ok_libs all_available ''m.onnx'' ''out.tflite'' True
          (start_world ''m.onnx''))) ''out_tf_model'' = None \<and>
   fst (convert_pytorch_model ok_libs all_available ''m.pt'' ''out.tflite'' True
          (start_world ''m.pt'')) = Inr () \<and>
   files (snd (convert_pytorch_model ok_libs all_available ''m.pt'' ''out.tflite'' True
          (start_world ''m.pt''))) ''out.onnx'' = None \<and>
   files (snd (convert_pytorch_model ok_libs all_available ''m.pt'' ''out.tflite'' True
          (start_world ''m.pt''))) ''out_tf_model'' = None \<and>
   fst (convert_onnx_model failing_libs all_available ''m.onnx'' ''out.tflite'' True
          (start_world ''m.onnx'')) = Inl (LibraryError ''convert'') \<and>
   files (snd (convert_onnx_model failing_libs all_available ''m.onnx'' ''out.tflite'' True
          (start_world ''m.onnx''))) ''out_tf_model'' = Some Dir"
proof -
  let ?o = "convert_onnx_model ok_libs all_available ''m.onnx'' ''out.tflite'' True
          (start_world ''m.onnx'')"
  let ?p = "convert_pytorch_model ok_libs all_available ''m.pt'' ''out.tflite'' True
          (start_world ''m.pt'')"
  let ?f = "convert_onnx_model failing_libs all_available ''m.onnx'' ''out.tflite'' True
          (start_world ''m.onnx'')"
  have o: "?o = (Inr (), snd ?o)" using onnx_ok_run by (simp add: prod_eq_iff)
  have p: "?p = (Inr (), snd ?p)" using pytorch_ok_run by (simp add: prod_eq_iff)
  have f: "?f = (Inl (LibraryError ''convert''), snd ?f)"
    using onnx_failing_run by (simp add: prod_eq_iff)
  have av: "onnx_available all_available" by (simp add: all_available_def)
  have x: "onnx2tf_convert failing_libs (files (start_world ''m.onnx'')) ''m.onnx''
             (ext (start_world ''m.onnx'')) = (Inr (), ())"
    by (simp add: failing_libs_def ok_libs_def)
  have 1: "files (snd ?o) (tf_model_path_of ''out.tflite'') = None"
    using intermediate_paths_after_convert [of ok_libs all_available "''m.onnx''"
        "''out.tflite''" True "start_world ''m.onnx''" "()" "snd ?o"] o
    by blast
  have 2: "files (snd ?p) (onnx_path_of ''out.tflite'') = None \<and>
           files (snd ?p) (tf_model_path_of ''out.tflite'') = None"
    using intermediate_paths_after_convert [of ok_libs all_available "''m.pt''"
        "''out.tflite''" True "start_world ''m.pt''" "()" "snd ?p"] p
    by blast
  have 3: "files (snd ?f) (tf_model_path_of ''out.tflite'') = Some Dir"
    using intermediate_paths_after_convert [of failing_libs all_available "''m.onnx''"
        "''out.tflite''" True "start_world ''m.onnx''" _ "snd ?f" "()"
        "LibraryError ''convert''"] f av x
    by blast
  show ?thesis
    using 1 2 3 onnx_ok_run pytorch_ok_run onnx_failing_run
    by (simp add: tf_model_path_example onnx_path_example)
qed

text \<open>
  The claim as stated fails on the failure path: the converter raises, the function
  re-raises, and the folder that onnx2tf created is left behind.
\<close>

theorem cleanup_counterexample:
  "convert_onnx_model failing_libs all_available ''m.onnx'' ''out.tflite'' True
     (start_world ''m.onnx'') =
   (Inl (LibraryError ''convert''),
    \<lparr>files = [''m.onnx'' \<mapsto> File [1, 2, 3], ''out_tf_model'' \<mapsto> Dir], ext = (),
     calls = [Onnx2tf ''m.onnx'' ''out_tf_model'', FromSavedModel ''out_tf_model'',
              Convert ((new_converter (SavedModelSource ''out_tf_model''))
                         \<lparr>optimizations := [DEFAULT]\<rparr>)]\<rparr>) \<and>
   path_exists (files (snd (convert_onnx_model failing_libs all_available ''m.onnx''
     ''out.tflite'' True (start_world ''m.onnx''))))
     (tf_model_path_of ''out.tflite'')"
  by (simp add: convert_onnx_model_def onnx_try_body_def all_available_def failing_libs_def
        ok_libs_def start_world_def prog_defs Let_def tf_model_path_example path_exists_def
        makedirs_example)

section \<open>Conversion without quantization\<close>

lemma new_calls_satisfyI:
  "convert_calls (calls w') = convert_calls (calls w) @ X \<Longrightarrow> list_all P X \<Longrightarrow>
   new_calls_satisfy P w w'"
  by (simp add: new_calls_satisfy_def converters_called_def)

lemma new_calls_satisfyD:
  "new_calls_satisfy P w w' \<Longrightarrow>
   \<exists>X. convert_calls (calls w') = convert_calls (calls w) @ X \<and> list_all P X"
  by (auto simp: new_calls_satisfy_def converters_called_def prefix_def)

lemma new_calls_satisfy_same:
  "convert_calls (calls w') = convert_calls (calls w) \<Longrightarrow> new_calls_satisfy P w w'"
  by (rule new_calls_satisfyI [where X = "[]"]) simp_all

lemma new_calls_satisfy_trans:
  assumes "new_calls_satisfy P w w1" and "new_calls_satisfy P w1 w2"
  shows "new_calls_satisfy P w w2"
proof -
  from assms obtain X Y where
    "convert_calls (calls w1) = convert_calls (calls w) @ X" "list_all P X"
    "convert_calls (calls w2) = convert_calls (calls w1) @ Y" "list_all P Y"
    by (blast dest: new_calls_satisfyD)
  then show ?thesis
    by (intro new_calls_satisfyI [where X = "X @ Y"]) simp_all
qed

lemma and_then_new_calls:
  assumes "new_calls_satisfy P w (snd (m w))"
      and "\<And>x w1. m w = (Inr x, w1) \<Longrightarrow> new_calls_satisfy P w1 (snd (f x w1))"
  shows "new_calls_satisfy P w (snd (and_then m f w))"
proof (cases "m w")
  case (Pair r w1)
  show ?thesis
  proof (cases r)
    case (Inl e)
    with Pair assms(1) show ?thesis by (simp add: and_then_def)
  next
    case (Inr x)
    with Pair assms(1) assms(2) [of x w1] show ?thesis
      by (auto simp: and_then_def intro: new_calls_satisfy_trans)
  qed
qed

lemma call_lib_new_other:
  "convert_calls [c] = [] \<Longrightarrow> new_calls_satisfy P w (snd (call_lib c f w))"
  by (rule new_calls_satisfy_same) (simp add: call_lib_def convert_calls_append split: prod.splits)

lemma call_lib_new_convert:
  "P c \<Longrightarrow> new_calls_satisfy P w (snd (call_lib (Convert c) f w))"
  by (rule new_calls_satisfyI [where X = "[c]"])
     (simp_all add: call_lib_def convert_calls_append split: prod.splits)

lemma fs_op_new: "new_calls_satisfy P w (snd (fs_op g w))"
  by (rule new_calls_satisfy_same) (simp add: fs_op_def split: sum.splits)

lemma create_folder_new: "new_calls_satisfy P w (snd (create_folder p w))"
  by (rule new_calls_satisfy_same) (simp add: create_folder_def)

lemma put_entry_new: "new_calls_satisfy P w (snd (put_entry p e w))"
  by (rule new_calls_satisfy_same) (simp add: put_entry_def)

lemma raise_new: "new_calls_satisfy P w (snd (raise e w))"
  by (rule new_calls_satisfy_same) (simp add: raise_def)

lemma try_except_reraise_new:
  "new_calls_satisfy P w (snd (m w)) \<Longrightarrow>
   new_calls_satisfy P w (snd (try_except m (\<lambda>e. raise e) w))"
  by (cases "m w") (auto simp: try_except_def raise_def split: sum.splits)

lemma convert_with_fallback_new:
  assumes "P c" and "P (c\<lparr>optimizations := []\<rparr>)"
  shows "new_calls_satisfy P w (snd (convert_with_fallback L c w))"
proof (cases "tflite_convert L c (ext w)")
  case (Pair r x)
  show ?thesis
  proof (cases r)
    case (Inr b)
    with Pair show ?thesis
      using convert_with_fallback_ok [of L c w b x] assms(1)
      by (auto intro!: new_calls_satisfyI [where X = "[c]"] simp: convert_calls_append)
  next
    case (Inl e)
    obtain r2 x2 where "tflite_convert L (c\<lparr>optimizations := []\<rparr>) x = (r2, x2)"
      by (cases "tflite_convert L (c\<lparr>optimizations := []\<rparr>) x") auto
    with Pair Inl show ?thesis
      using convert_with_fallback_retry [of L c w e x r2 x2] assms
      by (auto intro!: new_calls_satisfyI [where X = "[c, c\<lparr>optimizations := []\<rparr>]"]
               simp: convert_calls_append)
  qed
qed

lemma convert_tensorflow_model_new:
  assumes "\<And>src. P (new_converter src)"
  shows "new_calls_satisfy P w
           (snd (convert_tensorflow_model L model_path output_path False w))"
  unfolding convert_tensorflow_model_def
proof (rule and_then_new_calls)
  show "new_calls_satisfy P w (snd (load_tensorflow_model L model_path w))"
    by (rule new_calls_satisfy_same) (rule load_tensorflow_model_calls)
next
  fix x w1
  assume l: "load_tensorflow_model L model_path w = (Inr x, w1)"
  obtain model converter where x: "x = (model, converter)" by (cases x)
  from l x obtain src where c: "converter = new_converter src"
    using load_tensorflow_model_new by blast
  have o: "new_converter src\<lparr>optimizations := []\<rparr> = new_converter src"
    by (simp add: new_converter_def)
  show "new_calls_satisfy P w1
          (snd ((case x of (model, converter) \<Rightarrow>
             and_then (convert_with_fallback L (configure_optimization False model converter))
               (save_and_report L output_path)) w1))"
    unfolding x c
    apply (simp add: configure_optimization_def)
    apply (rule and_then_new_calls)
     apply (rule convert_with_fallback_new)
      apply (simp_all add: o assms)
    apply (rule new_calls_satisfy_same)
    apply (rule save_and_report_calls)
    done
qed

lemma onnx_try_body_new:
  assumes "\<And>src. P (new_converter src)"
  shows "new_calls_satisfy P w (snd (onnx_try_body L model_path output_path False w))"
  unfolding onnx_try_body_def Let_def
  apply simp
  apply (rule and_then_new_calls, rule call_lib_new_other, simp)
  apply (rule and_then_new_calls, rule create_folder_new)
  apply (rule and_then_new_calls, rule call_lib_new_other, simp)
  apply (rule and_then_new_calls, rule call_lib_new_convert, rule assms)
  apply (rule and_then_new_calls, rule fs_op_new)
  apply (rule fs_op_new)
  done

lemma convert_onnx_model_new:
  assumes "\<And>src. P (new_converter src)"
  shows "new_calls_satisfy P w
           (snd (convert_onnx_model L G model_path output_path False w))"
  unfolding convert_onnx_model_def
  by (auto intro: raise_new try_except_reraise_new onnx_try_body_new assms)

lemma convert_pytorch_model_new:
  assumes "\<And>src. P (new_converter src)"
  shows "new_calls_satisfy P w
           (snd (convert_pytorch_model L G model_path output_path False w))"
proof (cases "torch_available G")
  case False
  then show ?thesis by (simp add: convert_pytorch_model_def raise_new)
next
  case True
  then show ?thesis
    unfolding convert_pytorch_model_def Let_def
    apply simp
    apply (rule and_then_new_calls, rule call_lib_new_other, simp)
    apply (rule and_then_new_calls, rule call_lib_new_other, simp)
    apply (rule and_then_new_calls, rule call_lib_new_other, simp)
    apply (rule and_then_new_calls, rule put_entry_new)
    apply (rule and_then_new_calls, rule convert_onnx_model_new, rule assms)
    apply (rule fs_op_new)
    done
qed

lemma new_converter_none_plan:
  "plan_of (new_converter src) = Some none_plan \<and> \<not> requests_int8 (new_converter src)"
  by (simp add: plan_of_def new_converter_def none_plan_def requests_int8_def)

text \<open>
  Claim C6, as amended. With \<^verbatim>\<open>quantize\<close> false the configuration code changes
  nothing: the converter stays as the TensorFlow constructor made it. Every converter
  that convert\_tensorflow\_model, convert\_onnx\_model or convert\_pytorch\_model then
  passes to \<^verbatim>\<open>convert()\<close>, the retry included, stands for the plan
  \<^verbatim>\<open>{enabled:false, mode:NONE}\<close>: no optimization, no representative dataset, and
  float32 inference types, so it asks for no 8-bit integer tensors. The element types
  that the converted model declares are not checked: convert\_tensorflow\_model reads them
  back through the interpreter only to print them, and returns normally whatever types
  the first input and output details carry.
\<close>

theorem no_quantization_when_not_requested:
  "configure_optimization False model converter = converter \<and>
   new_calls_satisfy (\<lambda>c. plan_of c = Some none_plan \<and> \<not> requests_int8 c) w
     (snd (convert_tensorflow_model L model_path output_path False w)) \<and>
   new_calls_satisfy (\<lambda>c. plan_of c = Some none_plan \<and> \<not> requests_int8 c) wo
     (snd (convert_onnx_model L G onnx_path output_path False wo)) \<and>
   new_calls_satisfy (\<lambda>c. plan_of c = Some none_plan \<and> \<not> requests_int8 c) wp
     (snd (convert_pytorch_model L G torch_path output_path False wp)) \<and>
   (load_tensorflow_model L model_path w = (Inr (model, converter), w1) \<and>
    convert_with_fallback L converter w1 = (Inr artifact, w2) \<and>
    write_file (files w2) output_path artifact = Inr f' \<and>
    interpreter_details L artifact (ext w2) = (Inr (i # ins, out # outs), x) \<longrightarrow>
      convert_tensorflow_model L model_path output_path False w =
        (Inr (), w2\<lparr>files := f', ext := x, calls := calls w2 @ [Interpreter artifact]\<rparr>))"
proof -
  have cf: "configure_optimization False model converter = converter"
    by (simp add: configure_optimization_def)
  have acc: "convert_tensorflow_model L model_path output_path False w =
        (Inr (), w2\<lparr>files := f', ext := x, calls := calls w2 @ [Interpreter artifact]\<rparr>)"
    if "load_tensorflow_model L model_path w = (Inr (model, converter), w1)"
      and "convert_with_fallback L converter w1 = (Inr artifact, w2)"
      and "write_file (files w2) output_path artifact = Inr f'"
      and "interpreter_details L artifact (ext w2) = (Inr (i # ins, out # outs), x)"
  proof -
    have "convert_tensorflow_model L model_path output_path False w =
            save_and_report L output_path artifact w2"
      using convert_tensorflow_model_unfold [OF that(1), of output_path False] that(2) cf
      by (simp add: and_then_def)
    then show ?thesis
      using that(3) that(4)
      by (simp add: save_and_report_def and_then_def fs_op_def call_lib_def returns_def)
  qed
  show ?thesis
    using cf acc
      convert_tensorflow_model_new [of "\<lambda>c. plan_of c = Some none_plan \<and> \<not> requests_int8 c"
        w L model_path output_path]
      convert_onnx_model_new [of "\<lambda>c. plan_of c = Some none_plan \<and> \<not> requests_int8 c"
        wo L G onnx_path output_path]
      convert_pytorch_model_new [of "\<lambda>c. plan_of c = Some none_plan \<and> \<not> requests_int8 c"
        wp L G torch_path output_path]
      new_converter_none_plan
    by blast
qed

lemma tensorflow_ok_run:
  "convert_tensorflow_model ok_libs ''m.h5'' ''out.tflite'' False (start_world ''m.h5'') =
     (Inr (),
      \<lparr>files = [''m.h5'' \<mapsto> File [1, 2, 3], ''out.tflite'' \<mapsto> File [0x1c, 0, 0, 0]],
       ext = (),
       calls = [KerasLoadModel ''m.h5'', FromKerasModel 1,
                Convert (new_converter (KerasSource 1)), Interpreter [0x1c, 0, 0, 0]]\<rparr>)"
  by (simp add: convert_tensorflow_model_def load_tensorflow_model_def
        configure_optimization_def convert_with_fallback_def save_and_report_def
        ok_libs_def start_world_def prog_defs mnist_model_def suffix_h5_example
        write_file_def parent_error_example)

theorem no_quantization_when_not_requested_witness:
  "converters_called (start_world ''m.h5'')
     (snd (convert_tensorflow_model ok_libs ''m.h5'' ''out.tflite'' False
        (start_world ''m.h5''))) = [new_converter (KerasSource 1)] \<and>
   plan_of (new_converter (KerasSource 1)) = Some none_plan \<and>
   \<not> requests_int8 (new_converter (KerasSource 1)) \<and>
   convert_tensorflow_model ok_libs ''m.h5'' ''out.tflite'' False (start_world ''m.h5'') =
     (Inr (),
      \<lparr>files = [''m.h5'' \<mapsto> File [1, 2, 3], ''out.tflite'' \<mapsto> File [0x1c, 0, 0, 0]],
       ext = (),
       calls = [KerasLoadModel ''m.h5'', FromKerasModel 1,
                Convert (new_converter (KerasSource 1)), Interpreter [0x1c, 0, 0, 0]]\<rparr>)"
proof -
  let ?w1 = "\<lparr>files = [''m.h5'' \<mapsto> File [1, 2, 3]], ext = (),
       calls = [KerasLoadModel ''m.h5'', FromKerasModel 1]\<rparr>"
  let ?c = "new_converter (KerasSource 1)"
  let ?w2 = "?w1\<lparr>ext := (), calls := calls ?w1 @ [Convert ?c]\<rparr>"
  let ?f = "(files ?w2)(''out.tflite'' \<mapsto> File [0x1c, 0, 0, 0])"
  have c: "converters_called (start_world ''m.h5'')
     (snd (convert_tensorflow_model ok_libs ''m.h5'' ''out.tflite'' False
        (start_world ''m.h5''))) = [new_converter (KerasSource 1)]"
    unfolding tensorflow_ok_run by (simp add: converters_called_def start_world_def)
  note t = no_quantization_when_not_requested
      [where model = mnist_model and converter = ?c and w = "start_world ''m.h5''"
         and L = ok_libs and model_path = "''m.h5''" and output_path = "''out.tflite''"
         and G = all_available and wo = "start_world ''m.onnx''" and onnx_path = "''m.onnx''"
         and wp = "start_world ''m.pt''" and torch_path = "''m.pt''"
         and ?w1.0 = ?w1 and artifact = "[0x1c, 0, 0, 0]" and ?w2.0 = ?w2 and f' = ?f
         and i = float_detail and ins = "[]" and out = float_detail and outs = "[]"
         and x = "()"]
  from t have n: "new_calls_satisfy (\<lambda>c. plan_of c = Some none_plan \<and> \<not> requests_int8 c)
     (start_world ''m.h5'')
     (snd (convert_tensorflow_model ok_libs ''m.h5'' ''out.tflite'' False
        (start_world ''m.h5'')))"
    by blast
  have conv: "convert_with_fallback ok_libs ?c ?w1 = (Inr [0x1c, 0, 0, 0], ?w2)"
    by (rule convert_with_fallback_ok) (simp add: ok_libs_def)
  have wr: "write_file (files ?w2) ''out.tflite'' [0x1c, 0, 0, 0] = Inr ?f"
    by (simp add: write_file_def parent_error_example)
  have insp: "interpreter_details ok_libs [0x1c, 0, 0, 0] (ext ?w2)
              = (Inr ([float_detail], [float_detail]), ())"
    by (simp add: ok_libs_def)
  from t load_example_ok conv wr insp
  have run: "convert_tensorflow_model ok_libs ''m.h5'' ''out.tflite'' False
               (start_world ''m.h5'') =
             (Inr (), ?w2\<lparr>files := ?f, ext := (),
                          calls := calls ?w2 @ [Interpreter [0x1c, 0, 0, 0]]\<rparr>)"
    by blast
  from n have "plan_of ?c = Some none_plan \<and> \<not> requests_int8 ?c"
    unfolding new_calls_satisfy_def c by simp
  then show ?thesis
    using c run by simp
qed

text \<open>
  The claim as stated fails in its conclusion about the artifact. For a model whose own
  tensors are 8-bit integers, conversion with \<^verbatim>\<open>quantize\<close> false passes the untouched
  converter, stores the converted model and returns normally, and the element type that
  the stored model declares is the 8-bit integer type.
\<close>

theorem artifact_types_counterexample:
  "convert_tensorflow_model int8_libs ''m.h5'' ''out.tflite'' False (start_world ''m.h5'') =
     (Inr (),
      \<lparr>files = [''m.h5'' \<mapsto> File [1, 2, 3], ''out.tflite'' \<mapsto> File [0x1c, 0, 0, 0]],
       ext = (),
       calls = [KerasLoadModel ''m.h5'', FromKerasModel 1,
                Convert (new_converter (KerasSource 1)), Interpreter [0x1c, 0, 0, 0]]\<rparr>) \<and>
   plan_of (new_converter (KerasSource 1)) = Some none_plan \<and>
   interpreter_details int8_libs [0x1c, 0, 0, 0] ()
     = (Inr ([\<lparr>detail_shape = [1, 28, 28, 1], detail_dtype = int8\<rparr>],
             [\<lparr>detail_shape = [1, 28, 28, 1], detail_dtype = int8\<rparr>]), ())"
  by (simp add: convert_tensorflow_model_def load_tensorflow_model_def
        configure_optimization_def convert_with_fallback_def save_and_report_def
        int8_libs_def int8_detail_def ok_libs_def start_world_def prog_defs mnist_model_def
        suffix_h5_example write_file_def parent_error_example plan_of_def new_converter_def
        none_plan_def)

section \<open>The PyTorch converter\<close>

text \<open>
  Claim C7. For every loaded PyTorch model, convert\_pytorch\_model exports it to the
  intermediate ONNX file with a dummy input of the fixed shape \<open>(1, 3, 224, 224)\<close>,
  whatever the model is, and, when the export succeeds, hands the rest of the conversion
  to convert\_onnx\_model on that file (removing the file afterwards). When the export
  raises, the function raises that exception.
\<close>

theorem pytorch_exports_with_dummy_input_then_delegates:
  assumes "torch_available G"
      and "torch_load L (files w) model_path (ext w) = (Inr model, x1)"
      and "model_eval L model x1 = (Inr (), x2)"
      and "torch_onnx_export L model [1, 3, 224, 224] x2 = (r, x3)"
  shows "(\<forall>e. r = Inl e \<longrightarrow>
            convert_pytorch_model L G model_path output_path quantize w =
              (Inl e,
               w\<lparr>ext := x3,
                  calls := calls w @ [TorchLoad model_path, ModelEval model,
                     OnnxExport model [1, 3, 224, 224] (onnx_path_of output_path)]\<rparr>)) \<and>
         (\<forall>b. r = Inr b \<longrightarrow>
            convert_pytorch_model L G model_path output_path quantize w =
              and_then
                (convert_onnx_model L G (onnx_path_of output_path) output_path quantize)
                (\<lambda>_. fs_op (\<lambda>f. os_remove f (onnx_path_of output_path)))
                (w\<lparr>ext := x3,
                   calls := calls w @ [TorchLoad model_path, ModelEval model,
                     OnnxExport model [1, 3, 224, 224] (onnx_path_of output_path)],
                   files := (files w)(onnx_path_of output_path \<mapsto> File b)\<rparr>))"
  using assms
  by (auto simp: convert_pytorch_model_def dummy_input_shape_def Let_def
        and_then_def call_lib_def put_entry_def)

theorem pytorch_exports_with_dummy_input_then_delegates_witness:
  "convert_pytorch_model ok_libs all_available ''m.pt'' ''out.tflite'' True (start_world ''m.pt'')
   = and_then
       (convert_onnx_model ok_libs all_available ''out.onnx'' ''out.tflite'' True)
       (\<lambda>_. fs_op (\<lambda>f. os_remove f ''out.onnx''))
       \<lparr>files = [''m.pt'' \<mapsto> File [1, 2, 3], ''out.onnx'' \<mapsto> File [8, 1]], ext = (),
        calls = [TorchLoad ''m.pt'', ModelEval 7, OnnxExport 7 [1, 3, 224, 224] ''out.onnx'']\<rparr>"
proof -
  have a: "torch_available all_available" by (simp add: all_available_def)
  have l: "torch_load ok_libs (files (start_world ''m.pt'')) ''m.pt'' (ext (start_world ''m.pt''))
           = (Inr 7, ())"
    by (simp add: ok_libs_def)
  have e: "model_eval ok_libs 7 () = (Inr (), ())" by (simp add: ok_libs_def)
  have x: "torch_onnx_export ok_libs 7 [1, 3, 224, 224] () = (Inr [8, 1], ())"
    by (simp add: ok_libs_def)
  from pytorch_exports_with_dummy_input_then_delegates [OF a l e x, of "''out.tflite''" True]
  have "convert_pytorch_model ok_libs all_available ''m.pt'' ''out.tflite'' True
          (start_world ''m.pt'') =
        and_then
          (convert_onnx_model ok_libs all_available (onnx_path_of ''out.tflite'') ''out.tflite''
             True)
          (\<lambda>_. fs_op (\<lambda>f. os_remove f (onnx_path_of ''out.tflite'')))
          ((start_world ''m.pt'')
             \<lparr>ext := (),
              calls := calls (start_world ''m.pt'') @ [TorchLoad ''m.pt'', ModelEval 7,
                 OnnxExport 7 [1, 3, 224, 224] (onnx_path_of ''out.tflite'')],
              files := (files (start_world ''m.pt''))(onnx_path_of ''out.tflite'' \<mapsto> File [8, 1])\<rparr>)"
    by blast
  then show ?thesis
    by (simp add: onnx_path_example start_world_def)
qed

section \<open>Optional packages\<close>

lemma and_then_raises_right:
  assumes "\<And>x w1. \<exists>e w'. f x w1 = (Inl e, w')"
  shows "\<exists>e w'. and_then m f w = (Inl e, w')"
proof (cases "m w")
  case (Pair r w1)
  then show ?thesis using assms by (cases r) (auto simp: and_then_def)
qed

lemma and_then_raises_left:
  assumes "\<exists>e w'. m w = (Inl e, w')"
  shows "\<exists>e w'. and_then m f w = (Inl e, w')"
  using assms by (auto simp: and_then_def)

lemma convert_pytorch_model_needs_onnx:
  assumes "\<not> onnx_available G"
  shows "\<exists>e w'. convert_pytorch_model L G model_path output_path quantize w = (Inl e, w')"
proof (cases "torch_available G")
  case False
  then show ?thesis by (simp add: convert_pytorch_model_def raise_def)
next
  case True
  have o: "\<exists>e w'. convert_onnx_model L G p output_path quantize w1 = (Inl e, w')" for p w1
    using assms by (simp add: convert_onnx_model_def raise_def)
  show ?thesis
    unfolding convert_pytorch_model_def Let_def using True
    apply simp
    apply (rule and_then_raises_right)
    apply (rule and_then_raises_right)
    apply (rule and_then_raises_right)
    apply (rule and_then_raises_right)
    apply (rule and_then_raises_left)
    apply (rule o)
    done
qed

lemma main_tensorflow_independent:
  "arg_framework a = tensorflow \<Longrightarrow> has_tensorflow inst \<Longrightarrow> has_tensorflow inst' \<Longrightarrow>
   main L inst' a w = main L inst a w"
  by (simp add: main_def setup_imports_def run_conversion_def)

lemma main_onnx_independent:
  "arg_framework a = onnx \<Longrightarrow> has_tensorflow inst \<Longrightarrow> has_tensorflow inst' \<Longrightarrow>
   (has_onnx inst' \<and> has_onnx2tf inst') = (has_onnx inst \<and> has_onnx2tf inst) \<Longrightarrow>
   main L inst' a w = main L inst a w"
  by (simp add: main_def setup_imports_def run_conversion_def convert_onnx_model_def)

text \<open>
  Claim C8, as amended. The optional packages are looked for once, in setup\_imports,
  before any request is handled. Without PyTorch, a \<^verbatim>\<open>pytorch\<close> request fails with
  the import error of PyTorch, before any library is called. Without ONNX, an
  \<^verbatim>\<open>onnx\<close> request fails with the import error of ONNX before any library is called,
  and a \<^verbatim>\<open>pytorch\<close> request fails too, since it is converted through ONNX. A
  \<^verbatim>\<open>tensorflow\<close> request runs the same whatever optional packages are installed, and an
  \<^verbatim>\<open>onnx\<close> request runs the same whether or not PyTorch is installed.
\<close>

theorem optional_dependency_unavailable:
  assumes "setup_imports inst = Some G"
      and "path_exists (files w) (arg_model a)"
  shows "(arg_framework a = pytorch \<and> \<not> torch_available G \<longrightarrow>
            main L inst a w =
              (Exit1 (ConversionFailed (ImportError ''PyTorch not available'')), w)) \<and>
         (arg_framework a = onnx \<and> \<not> onnx_available G \<longrightarrow>
            main L inst a w =
              (Exit1 (ConversionFailed (ImportError ''ONNX not available'')), w)) \<and>
         (arg_framework a = pytorch \<and> \<not> onnx_available G \<longrightarrow>
            exit_code (fst (main L inst a w)) = 1) \<and>
         (arg_framework a = tensorflow \<and> has_tensorflow inst' \<longrightarrow>
            main L inst' a w = main L inst a w) \<and>
         (arg_framework a = onnx \<and> has_tensorflow inst' \<and>
          (has_onnx inst' \<and> has_onnx2tf inst') = onnx_available G \<longrightarrow>
            main L inst' a w = main L inst a w)"
proof -
  have tf: "has_tensorflow inst"
    using assms(1) by (auto simp: setup_imports_def split: if_splits)
  have G: "onnx_available G = (has_onnx inst \<and> has_onnx2tf inst)"
    using assms(1) by (auto simp: setup_imports_def split: if_splits)
  have 1: "arg_framework a = pytorch \<and> \<not> torch_available G \<longrightarrow>
            main L inst a w =
              (Exit1 (ConversionFailed (ImportError ''PyTorch not available'')), w)"
    using assms
    by (simp add: main_def run_conversion_def convert_pytorch_model_def raise_def and_then_def)
  have 2: "arg_framework a = onnx \<and> \<not> onnx_available G \<longrightarrow>
            main L inst a w =
              (Exit1 (ConversionFailed (ImportError ''ONNX not available'')), w)"
    using assms
    by (simp add: main_def run_conversion_def convert_onnx_model_def raise_def and_then_def)
  have 3: "arg_framework a = pytorch \<and> \<not> onnx_available G \<longrightarrow>
            exit_code (fst (main L inst a w)) = 1"
  proof (intro impI, elim conjE)
    assume f: "arg_framework a = pytorch" and n: "\<not> onnx_available G"
    from convert_pytorch_model_needs_onnx [OF n]
    obtain e w' where "convert_pytorch_model L G (arg_model a) (arg_output a)
                         (arg_quantize a) w = (Inl e, w')"
      by blast
    then show "exit_code (fst (main L inst a w)) = 1"
      using assms f by (simp add: main_def run_conversion_def and_then_def exit_code_def)
  qed
  have 4: "arg_framework a = tensorflow \<and> has_tensorflow inst' \<longrightarrow>
            main L inst' a w = main L inst a w"
    using main_tensorflow_independent [of a inst inst' L w] tf by blast
  have 5: "arg_framework a = onnx \<and> has_tensorflow inst' \<and>
          (has_onnx inst' \<and> has_onnx2tf inst') = onnx_available G \<longrightarrow>
            main L inst' a w = main L inst a w"
    using main_onnx_independent [of a inst inst' L w] tf G by blast
  show ?thesis
    using 1 2 3 4 5 by blast
qed

theorem optional_dependency_unavailable_witness:
  "main ok_libs (all_installed\<lparr>has_torch := False\<rparr>)
     \<lparr>arg_model = ''m.pt'', arg_framework = pytorch, arg_output = ''out.tflite'',
      arg_quantize = True, arg_generate_header = False\<rparr> (start_world ''m.pt'')
   = (Exit1 (ConversionFailed (ImportError ''PyTorch not available'')), start_world ''m.pt'') \<and>
   main ok_libs (all_installed\<lparr>has_onnx2tf := False\<rparr>)
     \<lparr>arg_model = ''m.onnx'', arg_framework = onnx, arg_output = ''out.tflite'',
      arg_quantize = True, arg_generate_header = False\<rparr> (start_world ''m.onnx'')
   = (Exit1 (ConversionFailed (ImportError ''ONNX not available'')), start_world ''m.onnx'') \<and>
   main ok_libs (all_installed\<lparr>has_torch := False, has_onnx := False\<rparr>)
     \<lparr>arg_model = ''m.h5'', arg_framework = tensorflow, arg_output = ''out.tflite'',
      arg_quantize = False, arg_generate_header = False\<rparr> (start_world ''m.h5'')
   = main ok_libs all_installed
     \<lparr>arg_model = ''m.h5'', arg_framework = tensorflow, arg_output = ''out.tflite'',
      arg_quantize = False, arg_generate_header = False\<rparr> (start_world ''m.h5'') \<and>
   exit_code (fst (main ok_libs (all_installed\<lparr>has_onnx2tf := False\<rparr>)
     \<lparr>arg_model = ''m.pt'', arg_framework = pytorch, arg_output = ''out.tflite'',
      arg_quantize = True, arg_generate_header = False\<rparr> (start_world ''m.pt''))) = 1 \<and>
   main ok_libs (all_installed\<lparr>has_torch := False, has_onnx2tf := False\<rparr>)
     \<lparr>arg_model = ''m.onnx'', arg_framework = onnx, arg_output = ''out.tflite'',
      arg_quantize = True, arg_generate_header = False\<rparr> (start_world ''m.onnx'')
   = main ok_libs (all_installed\<lparr>has_onnx2tf := False\<rparr>)
     \<lparr>arg_model = ''m.onnx'', arg_framework = onnx, arg_output = ''out.tflite'',
      arg_quantize = True, arg_generate_header = False\<rparr> (start_world ''m.onnx'')"
proof -
  let ?pt = "\<lparr>arg_model = ''m.pt'', arg_framework = pytorch, arg_output = ''out.tflite'',
      arg_quantize = True, arg_generate_header = False\<rparr>"
  let ?on = "\<lparr>arg_model = ''m.onnx'', arg_framework = onnx, arg_output = ''out.tflite'',
      arg_quantize = True, arg_generate_header = False\<rparr>"
  let ?tf = "\<lparr>arg_model = ''m.h5'', arg_framework = tensorflow, arg_output = ''out.tflite'',
      arg_quantize = False, arg_generate_header = False\<rparr>"
  have s1: "setup_imports (all_installed\<lparr>has_torch := False\<rparr>)
            = Some \<lparr>torch_available = False, onnx_available = True\<rparr>"
    by (simp add: setup_imports_def all_installed_def)
  have s2: "setup_imports (all_installed\<lparr>has_onnx2tf := False\<rparr>)
            = Some \<lparr>torch_available = True, onnx_available = False\<rparr>"
    by (simp add: setup_imports_def all_installed_def)
  have s3: "setup_imports all_installed = Some all_available"
    by (simp add: setup_imports_def all_installed_def all_available_def)
  have e1: "path_exists (files (start_world ''m.pt'')) (arg_model ?pt)"
    by (simp add: path_exists_def start_world_def)
  have e2: "path_exists (files (start_world ''m.onnx'')) (arg_model ?on)"
    by (simp add: path_exists_def start_world_def)
  have e3: "path_exists (files (start_world ''m.h5'')) (arg_model ?tf)"
    by (simp add: path_exists_def start_world_def)
  have 1: "main ok_libs (all_installed\<lparr>has_torch := False\<rparr>) ?pt (start_world ''m.pt'')
     = (Exit1 (ConversionFailed (ImportError ''PyTorch not available'')), start_world ''m.pt'')"
    using optional_dependency_unavailable [OF s1 e1, of ok_libs] by simp
  have 2: "main ok_libs (all_installed\<lparr>has_onnx2tf := False\<rparr>) ?on (start_world ''m.onnx'')
     = (Exit1 (ConversionFailed (ImportError ''ONNX not available'')), start_world ''m.onnx'')"
    using optional_dependency_unavailable [OF s2 e2, of ok_libs] by simp
  have 3: "main ok_libs (all_installed\<lparr>has_torch := False, has_onnx := False\<rparr>) ?tf
             (start_world ''m.h5'')
           = main ok_libs all_installed ?tf (start_world ''m.h5'')"
    using optional_dependency_unavailable [OF s3 e3,
        where inst' = "all_installed\<lparr>has_torch := False, has_onnx := False\<rparr>"
          and L = ok_libs]
    by (simp add: all_installed_def)
  have 4: "exit_code (fst (main ok_libs (all_installed\<lparr>has_onnx2tf := False\<rparr>) ?pt
             (start_world ''m.pt''))) = 1"
    using optional_dependency_unavailable [OF s2 e1, of ok_libs] by simp
  have 5: "main ok_libs (all_installed\<lparr>has_torch := False, has_onnx2tf := False\<rparr>) ?on
             (start_world ''m.onnx'')
           = main ok_libs (all_installed\<lparr>has_onnx2tf := False\<rparr>) ?on (start_world ''m.onnx'')"
    using optional_dependency_unavailable [OF s2 e2,
        where inst' = "all_installed\<lparr>has_torch := False, has_onnx2tf := False\<rparr>"
          and L = ok_libs]
    by (simp add: all_installed_def)
  show ?thesis
    using 1 2 3 4 5 by blast
qed

text \<open>
  The claim as stated fails when ONNX is missing: PyTorch is installed and the request is
  a \<^verbatim>\<open>pytorch\<close> one, which succeeds when everything is installed, yet it fails
  with the import error of ONNX (after the model was loaded and exported).
\<close>

theorem missing_onnx_disables_pytorch_counterexample:
  "fst (main ok_libs (all_installed\<lparr>has_onnx := False\<rparr>)
     \<lparr>arg_model = ''m.pt'', arg_framework = pytorch, arg_output = ''out.tflite'',
      arg_quantize = True, arg_generate_header = False\<rparr> (start_world ''m.pt''))
   = Exit1 (ConversionFailed (ImportError ''ONNX not available'')) \<and>
   fst (main ok_libs all_installed
     \<lparr>arg_model = ''m.pt'', arg_framework = pytorch, arg_output = ''out.tflite'',
      arg_quantize = True, arg_generate_header = False\<rparr> (start_world ''m.pt''))
   = Exit0"
proof -
  have 1: "fst (main ok_libs (all_installed\<lparr>has_onnx := False\<rparr>)
     \<lparr>arg_model = ''m.pt'', arg_framework = pytorch, arg_output = ''out.tflite'',
      arg_quantize = True, arg_generate_header = False\<rparr> (start_world ''m.pt''))
   = Exit1 (ConversionFailed (ImportError ''ONNX not available''))"
    by (simp add: main_def setup_imports_def all_installed_def run_conversion_def
          convert_pytorch_model_def convert_onnx_model_def ok_libs_def start_world_def
          prog_defs Let_def path_exists_def)
  have "fst (convert_pytorch_model ok_libs \<lparr>torch_available = True, onnx_available = True\<rparr>
          ''m.pt'' ''out.tflite'' True (start_world ''m.pt'')) = Inr ()"
    using pytorch_ok_run by (simp add: all_available_def)
  then have 2: "fst (main ok_libs all_installed
     \<lparr>arg_model = ''m.pt'', arg_framework = pytorch, arg_output = ''out.tflite'',
      arg_quantize = True, arg_generate_header = False\<rparr> (start_world ''m.pt''))
   = Exit0"
    by (auto simp: main_def setup_imports_def all_installed_def run_conversion_def
          and_then_def returns_def path_exists_def start_world_def
          split: prod.splits sum.splits)
  show ?thesis using 1 2 by blast
qed

section \<open>The quantization plan and the representative dataset\<close>

lemma concrete_shape_known: "concrete_shape (map Some shape) = Some shape"
  by (auto simp: concrete_shape_def comp_def)

lemma draws_Suc:
  "draws rnd (Suc n) r =
     (fst (rnd r) # fst (draws rnd n (snd (rnd r))), snd (draws rnd n (snd (rnd r))))"
  by (simp split: prod.splits)

lemma draws_length: "length (fst (draws rnd n r)) = n"
  by (induction n arbitrary: r) (simp_all add: draws_Suc del: draws.simps(2))

lemma draws_add:
  "draws rnd (a + b) r =
     (fst (draws rnd a r) @ fst (draws rnd b (snd (draws rnd a r))),
      snd (draws rnd b (snd (draws rnd a r))))"
  by (induction a arbitrary: r) (simp_all add: draws_Suc del: draws.simps(2))

text \<open>What one \<^verbatim>\<open>next\<close> of a running generator gives, for a shape with known sizes.\<close>

lemma gen_next_yield:
  assumes "gen_shape g = map Some shape" and "gen_count g < sample_count"
  shows "gen_next rnd f32 g r =
           (Yield [\<lparr>tensor_shape = 1 # shape,
                    tensor_data = map f32 (fst (draws rnd (prod_list shape) r))\<rparr>],
            g\<lparr>gen_count := Suc (gen_count g)\<rparr>,
            snd (draws rnd (prod_list shape) r))"
  using assms
  by (simp add: gen_next_def concrete_shape_known np_random_random_def split: prod.splits)

lemma gen_next_stop:
  "\<not> gen_count g < sample_count \<Longrightarrow> gen_next rnd f32 g r = (StopIteration, g, r)"
  by (simp add: gen_next_def)

lemma consume_running:
  assumes "gen_shape g = map Some shape"
      and "gen_count g + n = sample_count"
  shows "consume rnd f32 g r =
           (fst (consume rnd f32 g r), None, snd (draws rnd (n * prod_list shape) r)) \<and>
         length (fst (consume rnd f32 g r)) = n \<and>
         list_all (sample_ok shape) (fst (consume rnd f32 g r)) \<and>
         concat (map (\<lambda>s. tensor_data (hd s)) (fst (consume rnd f32 g r)))
           = map f32 (fst (draws rnd (n * prod_list shape) r))"
  using assms
proof (induction n arbitrary: g r)
  case 0
  then have "\<not> gen_count g < sample_count" by simp
  then have "consume rnd f32 g r = ([], None, r)"
    by (subst consume.simps) (simp add: gen_next_stop)
  then show ?case by simp
next
  case (Suc n)
  let ?N = "prod_list shape"
  let ?g' = "g\<lparr>gen_count := Suc (gen_count g)\<rparr>"
  let ?r' = "snd (draws rnd ?N r)"
  let ?t = "\<lparr>tensor_shape = 1 # shape, tensor_data = map f32 (fst (draws rnd ?N r))\<rparr>"
  from Suc.prems have lt: "gen_count g < sample_count" by simp
  have step: "consume rnd f32 g r =
                ([?t] # fst (consume rnd f32 ?g' ?r'), snd (consume rnd f32 ?g' ?r'))"
    by (subst consume.simps)
       (simp add: gen_next_yield [OF Suc.prems(1) lt] split: prod.splits)
  have g': "gen_shape ?g' = map Some shape" "gen_count ?g' + n = sample_count"
    using Suc.prems by simp_all
  note IH = Suc.IH [OF g', of r]
  have IH': "snd (consume rnd f32 ?g' ?r') = (None, snd (draws rnd (n * ?N) ?r'))"
    using Suc.IH [OF g', of ?r'] by (metis snd_conv)
  have d: "draws rnd (Suc n * ?N) r =
             (fst (draws rnd ?N r) @ fst (draws rnd (n * ?N) ?r'), snd (draws rnd (n * ?N) ?r'))"
    using draws_add [of rnd ?N "n * ?N" r] by simp
  show ?case
    unfolding step
    using Suc.IH [OF g', of ?r'] IH' d
    by (simp add: sample_ok_def draws_length)
qed

lemma converters_called_append:
  "convert_calls (calls w') = convert_calls (calls w) @ X \<Longrightarrow> converters_called w w' = X"
  by (simp add: converters_called_def)

lemma convert_tensorflow_model_retry_calls:
  assumes "load_tensorflow_model L model_path w = (Inr (model, converter), w1)"
      and "tflite_convert L (configure_optimization quantize model converter) (ext w1)
             = (Inl e1, x1)"
  shows "convert_calls (calls (snd (convert_tensorflow_model L model_path output_path
             quantize w)))
           = convert_calls (calls w) @
               [configure_optimization quantize model converter,
                (configure_optimization quantize model converter)\<lparr>optimizations := []\<rparr>]"
proof -
  let ?cfg = "configure_optimization quantize model converter"
  obtain r2 x2 where a2: "tflite_convert L (?cfg\<lparr>optimizations := []\<rparr>) x1 = (r2, x2)"
    by (cases "tflite_convert L (?cfg\<lparr>optimizations := []\<rparr>) x1") auto
  let ?w2 = "w1\<lparr>ext := x2,
                 calls := calls w1 @ [Convert ?cfg, Convert (?cfg\<lparr>optimizations := []\<rparr>)]\<rparr>"
  have fb: "convert_with_fallback L ?cfg w1 = (r2, ?w2)"
    using convert_with_fallback_retry [OF assms(2) a2] .
  have un: "convert_tensorflow_model L model_path output_path quantize w =
              and_then (convert_with_fallback L ?cfg) (save_and_report L output_path) w1"
    using convert_tensorflow_model_unfold [OF assms(1)] by simp
  have w1: "convert_calls (calls w1) = convert_calls (calls w)"
    using load_tensorflow_model_calls [of L model_path w] assms(1) by simp
  have two: "convert_calls (calls ?w2)
             = convert_calls (calls w) @ [?cfg, ?cfg\<lparr>optimizations := []\<rparr>]"
    by (simp add: convert_calls_append w1)
  show ?thesis
  proof (cases r2)
    case (Inl e2)
    then show ?thesis using un fb two by (simp add: and_then_def)
  next
    case (Inr b)
    then have "convert_tensorflow_model L model_path output_path quantize w
               = save_and_report L output_path b ?w2"
      using un fb by (simp add: and_then_def)
    then show ?thesis
      using save_and_report_calls [of L output_path b ?w2] two by simp
  qed
qed

lemma convert_tensorflow_model_first_call:
  assumes "load_tensorflow_model L model_path w = (Inr (model, converter), w1)"
  shows "\<exists>rest. converters_called w
                  (snd (convert_tensorflow_model L model_path output_path quantize w))
                = configure_optimization quantize model converter # rest"
proof -
  let ?cfg = "configure_optimization quantize model converter"
  let ?run = "convert_tensorflow_model L model_path output_path quantize w"
  have un: "?run = and_then (convert_with_fallback L ?cfg) (save_and_report L output_path) w1"
    using convert_tensorflow_model_unfold [OF assms] by simp
  have w1: "convert_calls (calls w1) = convert_calls (calls w)"
    using load_tensorflow_model_calls [of L model_path w] assms by simp
  obtain r1 x1 where a1: "tflite_convert L ?cfg (ext w1) = (r1, x1)"
    by (cases "tflite_convert L ?cfg (ext w1)") auto
  have "\<exists>rest. convert_calls (calls (snd ?run)) = convert_calls (calls w) @ ?cfg # rest"
  proof (cases r1)
    case (Inr b)
    let ?w2 = "w1\<lparr>ext := x1, calls := calls w1 @ [Convert ?cfg]\<rparr>"
    have "?run = save_and_report L output_path b ?w2"
      using un convert_with_fallback_ok [of L ?cfg w1 b x1] a1 Inr by (simp add: and_then_def)
    then have "convert_calls (calls (snd ?run)) = convert_calls (calls w) @ [?cfg]"
      using save_and_report_calls [of L output_path b ?w2] w1
      by (simp add: convert_calls_append)
    then show ?thesis by simp
  next
    case (Inl e1)
    have "convert_calls (calls (snd ?run))
            = convert_calls (calls w) @ [?cfg, ?cfg\<lparr>optimizations := []\<rparr>]"
      using convert_tensorflow_model_retry_calls [OF assms, of quantize e1 x1 output_path]
        a1 Inl
      by simp
    then show ?thesis by simp
  qed
  then show ?thesis
    by (auto dest: converters_called_append)
qed

lemma configure_int8:
  assumes "input_shape model = Some (batch # shape)"
  shows "configure_optimization True model (new_converter src) =
           \<lparr>conv_source = src, optimizations = [DEFAULT],
            representative_dataset = Some shape,
            supported_ops = [TFLITE_BUILTINS_INT8],
            inference_input_type = int8, inference_output_type = int8\<rparr>"
  using assms by (simp add: configure_optimization_def new_converter_def)

lemma onnx_try_body_quantize_new:
  assumes "\<And>src. P (new_converter src\<lparr>optimizations := [DEFAULT]\<rparr>)"
  shows "new_calls_satisfy P w (snd (onnx_try_body L model_path output_path True w))"
  unfolding onnx_try_body_def Let_def
  apply simp
  apply (rule and_then_new_calls, rule call_lib_new_other, simp)
  apply (rule and_then_new_calls, rule create_folder_new)
  apply (rule and_then_new_calls, rule call_lib_new_other, simp)
  apply (rule and_then_new_calls, rule call_lib_new_convert, rule assms)
  apply (rule and_then_new_calls, rule fs_op_new)
  apply (rule fs_op_new)
  done

lemma convert_onnx_model_quantize_new:
  assumes "\<And>src. P (new_converter src\<lparr>optimizations := [DEFAULT]\<rparr>)"
  shows "new_calls_satisfy P w
           (snd (convert_onnx_model L G model_path output_path True w))"
  unfolding convert_onnx_model_def
  by (auto intro: raise_new try_except_reraise_new onnx_try_body_quantize_new assms)

lemma convert_pytorch_model_quantize_new:
  assumes "\<And>src. P (new_converter src\<lparr>optimizations := [DEFAULT]\<rparr>)"
  shows "new_calls_satisfy P w
           (snd (convert_pytorch_model L G model_path output_path True w))"
proof (cases "torch_available G")
  case False
  then show ?thesis by (simp add: convert_pytorch_model_def raise_new)
next
  case True
  then show ?thesis
    unfolding convert_pytorch_model_def Let_def
    apply simp
    apply (rule and_then_new_calls, rule call_lib_new_other, simp)
    apply (rule and_then_new_calls, rule call_lib_new_other, simp)
    apply (rule and_then_new_calls, rule call_lib_new_other, simp)
    apply (rule and_then_new_calls, rule put_entry_new)
    apply (rule and_then_new_calls, rule convert_onnx_model_quantize_new, rule assms)
    apply (rule fs_op_new)
    done
qed

lemma default_converter_plan:
  "plan_of (new_converter src\<lparr>optimizations := [DEFAULT]\<rparr>) = Some default_plan"
  by (simp add: plan_of_def new_converter_def default_plan_def)

lemma configure_default:
  assumes "input_shape model = None \<or> input_shape model = Some []"
  shows "configure_optimization True model (new_converter src) =
           new_converter src\<lparr>optimizations := [DEFAULT]\<rparr>"
  using assms by (auto simp: configure_optimization_def)

lemma load_example_saved_model:
  "load_tensorflow_model ok_libs ''m.pb'' (start_world ''m.pb'') =
     (Inr (saved_model, new_converter (ConcreteSource [3])),
      \<lparr>files = [''m.pb'' \<mapsto> File [1, 2, 3]], ext = (),
       calls = [SavedModelLoad ''m.pb'', FromConcreteFunctions [3]]\<rparr>)"
  by (simp add: load_tensorflow_model_def ok_libs_def start_world_def
        prog_defs saved_model_def suffix_to_prefix)

text \<open>
  Claim C4, as amended. In convert\_tensorflow\_model with \<^verbatim>\<open>quantize\<close> requested,
  the first converter passed to \<^verbatim>\<open>convert()\<close> is the configured one. When the loaded
  model object has a non-empty \<^verbatim>\<open>input_shape\<close> attribute (a Keras model), it stands
  for the plan with mode INTEGER\_8BIT whose representative input shape is that attribute
  without its first (batch) entry, and 100 samples. When the object has no such attribute
  or an empty one (an object loaded from a SavedModel), it stands for the plan with mode
  DEFAULT\_OPTIMIZE. The representative dataset is a generator function: each call makes
  a new generator, each \<^verbatim>\<open>next\<close> draws one tensor, and for a shape whose sizes are all
  known a consumer that iterates it to the end gets exactly 100 samples and no exception;
  each sample is a list of one tensor of shape \<open>1\<close> followed by the representative
  shape, and the values of all samples together are, in order, the cast values of as many
  successive draws from numpy's uniform random source. convert\_onnx\_model and
  convert\_pytorch\_model never look at a shape: with \<^verbatim>\<open>quantize\<close> requested, every
  converter they pass to \<^verbatim>\<open>convert()\<close> stands for the plan with mode
  DEFAULT\_OPTIMIZE.
\<close>

theorem integer_quantization_plan:
  "(load_tensorflow_model L model_path w = (Inr (model, converter), w1) \<longrightarrow>
      take 1 (converters_called w
          (snd (convert_tensorflow_model L model_path output_path True w)))
        = [configure_optimization True model converter] \<and>
      (input_shape model = Some (batch # dims) \<longrightarrow>
         plan_of (configure_optimization True model converter) =
           Some \<lparr>enabled = True, mode = INTEGER_8BIT,
                 representative_input_shape = Some dims,
                 plan_sample_count = 100\<rparr>) \<and>
      (input_shape model = None \<or> input_shape model = Some [] \<longrightarrow>
         plan_of (configure_optimization True model converter) = Some default_plan)) \<and>
   gen_count (representative_dataset_fn (map Some shape)) = 0 \<and>
   length (fst (consume rnd f32 (representative_dataset_fn (map Some shape)) r)) = 100 \<and>
   fst (snd (consume rnd f32 (representative_dataset_fn (map Some shape)) r)) = None \<and>
   list_all (sample_ok shape)
     (fst (consume rnd f32 (representative_dataset_fn (map Some shape)) r)) \<and>
   concat (map (\<lambda>s. tensor_data (hd s))
     (fst (consume rnd f32 (representative_dataset_fn (map Some shape)) r)))
     = map f32 (fst (draws rnd (100 * prod_list shape) r)) \<and>
   new_calls_satisfy (\<lambda>c. plan_of c = Some default_plan) wo
     (snd (convert_onnx_model L G onnx_path output_path True wo)) \<and>
   new_calls_satisfy (\<lambda>c. plan_of c = Some default_plan) wp
     (snd (convert_pytorch_model L G torch_path output_path True wp))"
proof -
  let ?g = "representative_dataset_fn (map Some shape)"
  have tf: "take 1 (converters_called w
          (snd (convert_tensorflow_model L model_path output_path True w)))
        = [configure_optimization True model converter] \<and>
      (input_shape model = Some (batch # dims) \<longrightarrow>
         plan_of (configure_optimization True model converter) =
           Some \<lparr>enabled = True, mode = INTEGER_8BIT,
                 representative_input_shape = Some dims,
                 plan_sample_count = 100\<rparr>) \<and>
      (input_shape model = None \<or> input_shape model = Some [] \<longrightarrow>
         plan_of (configure_optimization True model converter) = Some default_plan)"
    if load: "load_tensorflow_model L model_path w = (Inr (model, converter), w1)"
  proof -
    obtain src where c: "converter = new_converter src"
      using load_tensorflow_model_new [OF load] by blast
    have 1: "take 1 (converters_called w
              (snd (convert_tensorflow_model L model_path output_path True w)))
             = [configure_optimization True model converter]"
      using convert_tensorflow_model_first_call [OF load, of output_path True] by auto
    have 2: "plan_of (configure_optimization True model converter) =
             Some \<lparr>enabled = True, mode = INTEGER_8BIT,
                   representative_input_shape = Some dims,
                   plan_sample_count = 100\<rparr>"
      if "input_shape model = Some (batch # dims)"
      unfolding c configure_int8 [OF that]
      by (simp add: plan_of_def sample_count_def)
    have 3: "plan_of (configure_optimization True model converter) = Some default_plan"
      if "input_shape model = None \<or> input_shape model = Some []"
      unfolding c configure_default [OF that] by (rule default_converter_plan)
    show ?thesis using 1 2 3 by blast
  qed
  have g: "gen_shape ?g = map Some shape" "gen_count ?g + 100 = sample_count"
    by (simp_all add: representative_dataset_fn_def sample_count_def)
  note run = consume_running [OF g, of rnd f32 r]
  have g0: "gen_count ?g = 0" by (simp add: representative_dataset_fn_def)
  have n: "fst (snd (consume rnd f32 ?g r)) = None"
    using run by (metis fst_conv snd_conv)
  have gen: "length (fst (consume rnd f32 ?g r)) = 100 \<and>
      list_all (sample_ok shape) (fst (consume rnd f32 ?g r)) \<and>
      concat (map (\<lambda>s. tensor_data (hd s)) (fst (consume rnd f32 ?g r)))
        = map f32 (fst (draws rnd (100 * prod_list shape) r))"
    using run by simp
  have 4: "new_calls_satisfy (\<lambda>c. plan_of c = Some default_plan) wo
           (snd (convert_onnx_model L G onnx_path output_path True wo))"
    by (rule convert_onnx_model_quantize_new) (rule default_converter_plan)
  have 5: "new_calls_satisfy (\<lambda>c. plan_of c = Some default_plan) wp
           (snd (convert_pytorch_model L G torch_path output_path True wp))"
    by (rule convert_pytorch_model_quantize_new) (rule default_converter_plan)
  show ?thesis
    using tf g0 n gen 4 5 by blast
qed

theorem integer_quantization_plan_witness:
  "input_shape mnist_model = Some (None # map Some [28, 28, 1]) \<and>
   take 1 (converters_called (start_world ''m.h5'')
      (snd (convert_tensorflow_model ok_libs ''m.h5'' ''out.tflite'' True
         (start_world ''m.h5''))))
     = [\<lparr>conv_source = KerasSource 1, optimizations = [DEFAULT],
         representative_dataset = Some [Some 28, Some 28, Some 1],
         supported_ops = [TFLITE_BUILTINS_INT8],
         inference_input_type = int8, inference_output_type = int8\<rparr>] \<and>
   plan_of (configure_optimization True mnist_model (new_converter (KerasSource 1))) =
     Some \<lparr>enabled = True, mode = INTEGER_8BIT,
           representative_input_shape = Some [Some 28, Some 28, Some 1],
           plan_sample_count = 100\<rparr> \<and>
   input_shape saved_model = None \<and>
   take 1 (converters_called (start_world ''m.pb'')
      (snd (convert_tensorflow_model ok_libs ''m.pb'' ''out.tflite'' True
         (start_world ''m.pb''))))
     = [new_converter (ConcreteSource [3])\<lparr>optimizations := [DEFAULT]\<rparr>] \<and>
   plan_of (configure_optimization True saved_model (new_converter (ConcreteSource [3])))
     = Some default_plan \<and>
   length (fst (consume (\<lambda>n :: nat. (n, Suc n)) (\<lambda>v. v)
      (representative_dataset_fn [Some 28, Some 28, Some 1]) 0)) = 100 \<and>
   list_all (sample_ok [28, 28, 1]) (fst (consume (\<lambda>n :: nat. (n, Suc n)) (\<lambda>v. v)
      (representative_dataset_fn [Some 28, Some 28, Some 1]) 0)) \<and>
   new_calls_satisfy (\<lambda>c. plan_of c = Some default_plan) (start_world ''m.onnx'')
     (snd (convert_onnx_model ok_libs all_available ''m.onnx'' ''out.tflite'' True
        (start_world ''m.onnx'')))"
proof -
  have sh: "input_shape mnist_model = Some (None # map Some [28, 28, 1])"
    by (simp add: mnist_model_def)
  have ns: "input_shape saved_model = None \<or> input_shape saved_model = Some []"
    by (simp add: saved_model_def)
  note t = integer_quantization_plan [where L = ok_libs and model_path = "''m.h5''"
      and w = "start_world ''m.h5''" and model = mnist_model
      and converter = "new_converter (KerasSource 1)"
      and ?w1.0 = "\<lparr>files = [''m.h5'' \<mapsto> File [1, 2, 3]], ext = (),
                    calls = [KerasLoadModel ''m.h5'', FromKerasModel 1]\<rparr>"
      and output_path = "''out.tflite''" and batch = None
      and dims = "map Some [28, 28, 1]" and shape = "[28, 28, 1]"
      and rnd = "\<lambda>n :: nat. (n, Suc n)" and ?f32.0 = "\<lambda>v. v" and r = 0
      and wo = "start_world ''m.onnx''" and G = all_available and onnx_path = "''m.onnx''"
      and wp = "start_world ''m.pt''" and torch_path = "''m.pt''"]
  note u = integer_quantization_plan [where L = ok_libs and model_path = "''m.pb''"
      and w = "start_world ''m.pb''" and model = saved_model
      and converter = "new_converter (ConcreteSource [3])"
      and ?w1.0 = "\<lparr>files = [''m.pb'' \<mapsto> File [1, 2, 3]], ext = (),
                    calls = [SavedModelLoad ''m.pb'', FromConcreteFunctions [3]]\<rparr>"
      and output_path = "''out.tflite''" and batch = None
      and dims = "map Some [28, 28, 1]" and shape = "[28, 28, 1]"
      and rnd = "\<lambda>n :: nat. (n, Suc n)" and ?f32.0 = "\<lambda>v. v" and r = 0
      and wo = "start_world ''m.onnx''" and G = all_available and onnx_path = "''m.onnx''"
      and wp = "start_world ''m.pt''" and torch_path = "''m.pt''"]
  have cfg: "configure_optimization True mnist_model (new_converter (KerasSource 1)) =
         \<lparr>conv_source = KerasSource 1, optimizations = [DEFAULT],
         representative_dataset = Some [Some 28, Some 28, Some 1],
         supported_ops = [TFLITE_BUILTINS_INT8],
         inference_input_type = int8, inference_output_type = int8\<rparr>"
    using configure_int8 [OF sh] by simp
  have cfd: "configure_optimization True saved_model (new_converter (ConcreteSource [3]))
             = new_converter (ConcreteSource [3])\<lparr>optimizations := [DEFAULT]\<rparr>"
    using configure_default [OF ns] by simp
  from t load_example_ok sh
  have k: "take 1 (converters_called (start_world ''m.h5'')
      (snd (convert_tensorflow_model ok_libs ''m.h5'' ''out.tflite'' True
         (start_world ''m.h5''))))
     = [configure_optimization True mnist_model (new_converter (KerasSource 1))] \<and>
     plan_of (configure_optimization True mnist_model (new_converter (KerasSource 1))) =
       Some \<lparr>enabled = True, mode = INTEGER_8BIT,
           representative_input_shape = Some (map Some [28, 28, 1]),
           plan_sample_count = 100\<rparr>"
    by blast
  from u load_example_saved_model ns
  have m: "take 1 (converters_called (start_world ''m.pb'')
      (snd (convert_tensorflow_model ok_libs ''m.pb'' ''out.tflite'' True
         (start_world ''m.pb''))))
     = [configure_optimization True saved_model (new_converter (ConcreteSource [3]))] \<and>
     plan_of (configure_optimization True saved_model (new_converter (ConcreteSource [3])))
       = Some default_plan"
    by blast
  from t
  have rest: "length (fst (consume (\<lambda>n :: nat. (n, Suc n)) (\<lambda>v. v)
      (representative_dataset_fn (map Some [28, 28, 1])) 0)) = 100 \<and>
   list_all (sample_ok [28, 28, 1]) (fst (consume (\<lambda>n :: nat. (n, Suc n)) (\<lambda>v. v)
      (representative_dataset_fn (map Some [28, 28, 1])) 0)) \<and>
   new_calls_satisfy (\<lambda>c. plan_of c = Some default_plan) (start_world ''m.onnx'')
     (snd (convert_onnx_model ok_libs all_available ''m.onnx'' ''out.tflite'' True
        (start_world ''m.onnx'')))"
    by blast
  show ?thesis
    using k m rest sh cfg cfd by (simp add: saved_model_def)
qed

text \<open>
  The claim as stated fails for an \<^verbatim>\<open>onnx\<close> request: with \<^verbatim>\<open>quantize\<close> requested,
  the only converter passed to \<^verbatim>\<open>convert()\<close> has the default optimization and no
  representative dataset, whatever input shape the graph declares.
\<close>

theorem onnx_quantize_counterexample:
  "converters_called (start_world ''m.onnx'')
     (snd (convert_onnx_model ok_libs all_available ''m.onnx'' ''out.tflite'' True
        (start_world ''m.onnx'')))
     = [\<lparr>conv_source = SavedModelSource ''out_tf_model'', optimizations = [DEFAULT],
         representative_dataset = None, supported_ops = [TFLITE_BUILTINS],
         inference_input_type = float32, inference_output_type = float32\<rparr>] \<and>
   plan_of \<lparr>conv_source = SavedModelSource ''out_tf_model'', optimizations = [DEFAULT],
         representative_dataset = None, supported_ops = [TFLITE_BUILTINS],
         inference_input_type = float32, inference_output_type = float32\<rparr>
     = Some \<lparr>enabled = True, mode = DEFAULT_OPTIMIZE, representative_input_shape = None,
             plan_sample_count = 0\<rparr>"
  by (simp add: convert_onnx_model_def onnx_try_body_def all_available_def ok_libs_def
        start_world_def prog_defs Let_def tf_model_path_example write_file_def
        shutil_rmtree_def converters_called_def new_converter_def plan_of_def
        parent_error_example makedirs_example)

end
